theory Spec2Isabelle
  imports Complex_Main
begin

section \<open>JavaScript numbers\<close>

text \<open>
  The program computes with JavaScript numbers. They are modelled as reals extended with
  the three special values of IEEE arithmetic, so that every division of the source (also
  a division by zero) and every comparison with \<open>NaN\<close> has the value the program gives
  it. The operations of this section return the exact result; the rounding of each result
  to a double is added in the section on double-precision arithmetic, where a property
  depends on it. The sign of zero is not modelled.
\<close>

datatype jsnum = Fin real | PInf | NInf | NaN

fun jneg :: "jsnum \<Rightarrow> jsnum" where
  "jneg (Fin a) = Fin (- a)"
| "jneg PInf = NInf"
| "jneg NInf = PInf"
| "jneg NaN = NaN"

fun jadd :: "jsnum \<Rightarrow> jsnum \<Rightarrow> jsnum" where
  "jadd (Fin a) (Fin b) = Fin (a + b)"
| "jadd NaN y = NaN"
| "jadd x NaN = NaN"
| "jadd PInf NInf = NaN"
| "jadd NInf PInf = NaN"
| "jadd PInf y = PInf"
| "jadd x PInf = PInf"
| "jadd NInf y = NInf"
| "jadd x NInf = NInf"

definition jsub :: "jsnum \<Rightarrow> jsnum \<Rightarrow> jsnum" where
  "jsub x y = jadd x (jneg y)"

fun jmul :: "jsnum \<Rightarrow> jsnum \<Rightarrow> jsnum" where
  "jmul (Fin a) (Fin b) = Fin (a * b)"
| "jmul NaN y = NaN"
| "jmul x NaN = NaN"
| "jmul (Fin a) y = (if a = 0 then NaN else if 0 < a then y else jneg y)"
| "jmul x (Fin b) = (if b = 0 then NaN else if 0 < b then x else jneg x)"
| "jmul PInf y = y"
| "jmul NInf y = jneg y"

fun jdiv :: "jsnum \<Rightarrow> jsnum \<Rightarrow> jsnum" where
  "jdiv (Fin a) (Fin b) =
     (if b = 0 then (if a = 0 then NaN else if 0 < a then PInf else NInf)
      else Fin (a / b))"
| "jdiv NaN y = NaN"
| "jdiv x NaN = NaN"
| "jdiv (Fin a) y = Fin 0"
| "jdiv x (Fin b) = (if 0 \<le> b then x else jneg x)"
| "jdiv x y = NaN"

text \<open>\<open>Math.floor\<close>, \<open>Math.abs\<close>, \<open>Math.pow(x, 2)\<close> and \<open>Math.sqrt\<close>.\<close>

fun jfloor :: "jsnum \<Rightarrow> jsnum" where
  "jfloor (Fin a) = Fin (of_int \<lfloor>a\<rfloor>)"
| "jfloor x = x"

fun jabs :: "jsnum \<Rightarrow> jsnum" where
  "jabs (Fin a) = Fin \<bar>a\<bar>"
| "jabs NaN = NaN"
| "jabs x = PInf"

fun jpow2 :: "jsnum \<Rightarrow> jsnum" where
  "jpow2 (Fin a) = Fin (a * a)"
| "jpow2 NaN = NaN"
| "jpow2 x = PInf"

fun jsqrt :: "jsnum \<Rightarrow> jsnum" where
  "jsqrt (Fin a) = (if a < 0 then NaN else Fin (sqrt a))"
| "jsqrt PInf = PInf"
| "jsqrt x = NaN"

text \<open>The comparisons greater, less, strict equality, greater-or-equal and less-or-equal:
  all false on \<open>NaN\<close>.\<close>

fun jgt :: "jsnum \<Rightarrow> jsnum \<Rightarrow> bool" where
  "jgt (Fin a) (Fin b) = (b < a)"
| "jgt NaN y = False"
| "jgt x NaN = False"
| "jgt PInf PInf = False"
| "jgt PInf y = True"
| "jgt x NInf = (x \<noteq> NInf)"
| "jgt x y = False"

definition jlt :: "jsnum \<Rightarrow> jsnum \<Rightarrow> bool" where
  "jlt x y = jgt y x"

definition jeq :: "jsnum \<Rightarrow> jsnum \<Rightarrow> bool" where
  "jeq x y = (x \<noteq> NaN \<and> x = y)"

definition jge :: "jsnum \<Rightarrow> jsnum \<Rightarrow> bool" where
  "jge x y = (jgt x y \<or> jeq x y)"

definition jle :: "jsnum \<Rightarrow> jsnum \<Rightarrow> bool" where
  "jle x y = jge y x"

text \<open>A number is falsy when it is \<open>0\<close> or \<open>NaN\<close>.\<close>

definition truthy :: "jsnum \<Rightarrow> bool" where
  "truthy x = (x \<noteq> NaN \<and> x \<noteq> Fin 0)"

text \<open>\<open>xs.reduce((sum, x) => sum + x, 0)\<close>\<close>

definition jsum :: "jsnum list \<Rightarrow> jsnum" where
  "jsum xs = foldl jadd (Fin 0) xs"

text \<open>
  \<open>xs[i]\<close> is \<open>undefined\<close> outside the array; \<open>undefined\<close> in arithmetic and in a
  comparison is \<open>NaN\<close>.
\<close>

definition js_nth :: "'a list \<Rightarrow> int \<Rightarrow> 'a option" where
  "js_nth xs i = (if 0 \<le> i \<and> i < int (length xs) then Some (xs ! nat i) else None)"

fun to_num :: "jsnum option \<Rightarrow> jsnum" where
  "to_num None = NaN"
| "to_num (Some x) = x"

section \<open>The data of a backtest\<close>

text \<open>A \<open>Date\<close> object: milliseconds since the epoch, or the invalid date.\<close>

datatype jsdate = DateMs int | InvalidDate

datatype sigtype = BUY | SELL | HOLD

record signal =
  sig_date :: jsdate
  sig_type :: sigtype
  sig_price :: jsnum

record trade =
  tr_date :: jsdate
  tr_type :: sigtype
  tr_price :: jsnum
  tr_quantity :: jsnum
  tr_profit :: "jsnum option"

record equity_point =
  ep_date :: jsdate
  ep_equity :: jsnum

record summary =
  initialCapital :: jsnum
  finalCapital :: jsnum
  profit :: jsnum
  profitPercentage :: jsnum
  totalTrades :: int
  winningTrades :: int
  losingTrades :: int
  winRate :: jsnum
  maxDrawdown :: jsnum
  avgTradeProfit :: jsnum

record sim_result =
  res_trades :: "trade list"
  res_summary :: summary
  res_equityCurve :: "equity_point list"

text \<open>
  The errors of the program. The source throws \<open>Error\<close> objects with a message, and the
  runtime throws \<open>TypeError\<close>; \<open>InvalidParameter\<close> and \<open>InsufficientData\<close> are the error
  kinds the specification names, which no \<open>throw\<close> of the source produces.
\<close>

datatype error =
    StrategyNotFound
  | NoHistoricalData
  | NoDataProvided
  | StrategyNotSupported string
  | TypeError_not_a_function
  | TypeError_undefined_property
  | InvalidParameter
  | InsufficientData

section \<open>The trade simulator\<close>

text \<open>
  \<open>simulateTrades\<close> (signal-list version, full-cash floor-division sizing). The local
  variables of the function are the fields of the state; the loop \<open>for (const signal of
  signals)\<close> is a left fold of \<open>sim_step\<close>.
\<close>

record sim_state =
  capital :: jsnum
  position :: jsnum
  entryPrice :: jsnum
  trades :: "trade list"
  st_maxDrawdown :: jsnum
  peak :: jsnum
  st_winningTrades :: int
  st_totalTrades :: int
  equityCurve :: "equity_point list"

definition sim_init :: "signal list \<Rightarrow> jsnum \<Rightarrow> jsdate \<Rightarrow> sim_state" where
  "sim_init signals initCap now =
     \<lparr>capital = initCap, position = Fin 0, entryPrice = Fin 0, trades = [],
      st_maxDrawdown = Fin 0, peak = initCap, st_winningTrades = 0, st_totalTrades = 0,
      equityCurve =
        [\<lparr>ep_date = (case signals of [] \<Rightarrow> now | s # _ \<Rightarrow> sig_date s),
          ep_equity = initCap\<rparr>]\<rparr>"

text \<open>The branch \<open>signal.type === 'BUY' && position === 0\<close>.\<close>

definition sim_buy :: "sim_state \<Rightarrow> signal \<Rightarrow> sim_state" where
  "sim_buy st sg =
     (let quantity = jfloor (jdiv (capital st) (sig_price sg)) in
      if jgt quantity (Fin 0) then
        (let cost = jmul quantity (sig_price sg);
             capital' = jsub (capital st) cost
         in st\<lparr>capital := capital',
               position := quantity,
               entryPrice := sig_price sg,
               trades := trades st @
                 [\<lparr>tr_date = sig_date sg, tr_type = BUY, tr_price = sig_price sg,
                   tr_quantity = quantity, tr_profit = None\<rparr>],
               equityCurve := equityCurve st @
                 [\<lparr>ep_date = sig_date sg,
                   ep_equity = jadd capital' (jmul quantity (sig_price sg))\<rparr>]\<rparr>)
      else st)"

text \<open>The branch \<open>signal.type === 'SELL' && position > 0\<close>.\<close>

definition sim_sell :: "sim_state \<Rightarrow> signal \<Rightarrow> sim_state" where
  "sim_sell st sg =
     (let sellValue = jmul (position st) (sig_price sg);
          profit' = jsub sellValue (jmul (position st) (entryPrice st));
          capital' = jadd (capital st) sellValue;
          st1 = st\<lparr>capital := capital',
                   trades := trades st @
                     [\<lparr>tr_date = sig_date sg, tr_type = SELL, tr_price = sig_price sg,
                       tr_quantity = position st, tr_profit = Some profit'\<rparr>],
                   st_winningTrades :=
                     (if jgt profit' (Fin 0) then st_winningTrades st + 1
                      else st_winningTrades st),
                   st_totalTrades := st_totalTrades st + 1,
                   position := Fin 0,
                   entryPrice := Fin 0,
                   equityCurve := equityCurve st @
                     [\<lparr>ep_date = sig_date sg, ep_equity = capital'\<rparr>]\<rparr>
      in if jgt capital' (peak st) then st1\<lparr>peak := capital'\<rparr>
         else (let drawdown = jmul (jdiv (jsub (peak st) capital') (peak st)) (Fin 100)
               in if jgt drawdown (st_maxDrawdown st)
                  then st1\<lparr>st_maxDrawdown := drawdown\<rparr> else st1))"

definition sim_step :: "sim_state \<Rightarrow> signal \<Rightarrow> sim_state" where
  "sim_step st sg =
     (if sig_type sg = BUY \<and> jeq (position st) (Fin 0) then sim_buy st sg
      else if sig_type sg = SELL \<and> jgt (position st) (Fin 0) then sim_sell st sg
      else st)"

definition sim_loop :: "sim_state \<Rightarrow> signal list \<Rightarrow> sim_state" where
  "sim_loop st signals = foldl sim_step st signals"

text \<open>\<open>// Close any remaining positions at the last price\<close>\<close>

definition sim_close :: "sim_state \<Rightarrow> signal list \<Rightarrow> sim_state" where
  "sim_close st signals =
     (if jgt (position st) (Fin 0) \<and> 0 < length signals then
        (let lastSignal = last signals;
             sellValue = jmul (position st) (sig_price lastSignal);
             profit' = jsub sellValue (jmul (position st) (entryPrice st));
             capital' = jadd (capital st) sellValue
         in st\<lparr>capital := capital',
               trades := trades st @
                 [\<lparr>tr_date = sig_date lastSignal, tr_type = SELL,
                   tr_price = sig_price lastSignal,
                   tr_quantity = position st, tr_profit = Some profit'\<rparr>],
               st_winningTrades :=
                 (if jgt profit' (Fin 0) then st_winningTrades st + 1
                  else st_winningTrades st),
               st_totalTrades := st_totalTrades st + 1,
               equityCurve := equityCurve st @
                 [\<lparr>ep_date = sig_date lastSignal, ep_equity = capital'\<rparr>]\<rparr>)
      else st)"

text \<open>\<open>// Calculate summary\<close>\<close>

definition sim_summary :: "sim_state \<Rightarrow> jsnum \<Rightarrow> summary" where
  "sim_summary st initCap =
     (let finalCapital' = capital st;
          profit' = jsub finalCapital' initCap;
          profitPercentage' = jmul (jdiv profit' initCap) (Fin 100)
      in \<lparr>initialCapital = initCap,
          finalCapital = finalCapital',
          profit = profit',
          profitPercentage = profitPercentage',
          totalTrades = st_totalTrades st,
          winningTrades = st_winningTrades st,
          losingTrades = st_totalTrades st - st_winningTrades st,
          winRate =
            (if 0 < st_totalTrades st
             then jmul (jdiv (Fin (of_int (st_winningTrades st)))
                             (Fin (of_int (st_totalTrades st)))) (Fin 100)
             else Fin 0),
          maxDrawdown = st_maxDrawdown st,
          avgTradeProfit =
            (if 0 < st_totalTrades st
             then jdiv profit' (Fin (of_int (st_totalTrades st)))
             else Fin 0)\<rparr>)"

definition simulateTrades :: "signal list \<Rightarrow> jsnum \<Rightarrow> jsdate \<Rightarrow> sim_result" where
  "simulateTrades signals initCap now =
     (let st = sim_close (sim_loop (sim_init signals initCap now) signals) signals
      in \<lparr>res_trades = trades st,
          res_summary = sim_summary st initCap,
          res_equityCurve = equityCurve st\<rparr>)"

text \<open>
  The function has no \<open>throw\<close> and no operation that can raise on a list of signals, so
  seen as a computation that may fail it always returns.
\<close>

definition simulateTrades_outcome :: "signal list \<Rightarrow> jsnum \<Rightarrow> jsdate \<Rightarrow> error + sim_result" where
  "simulateTrades_outcome signals initCap now = Inr (simulateTrades signals initCap now)"

section \<open>Predicates on inputs and trade logs\<close>

text \<open>A finite number that is at least zero; a finite, strictly positive price; a finite
  price other than zero.\<close>

fun nonneg :: "jsnum \<Rightarrow> bool" where
  "nonneg (Fin a) = (0 \<le> a)"
| "nonneg x = False"

fun pos_price :: "jsnum \<Rightarrow> bool" where
  "pos_price (Fin p) = (0 < p)"
| "pos_price x = False"

fun nonzero_price :: "jsnum \<Rightarrow> bool" where
  "nonzero_price (Fin p) = (p \<noteq> 0)"
| "nonzero_price x = False"

text \<open>The state of the simulator after the first \<open>k\<close> signals of a run.\<close>

definition sim_after :: "signal list \<Rightarrow> jsnum \<Rightarrow> jsdate \<Rightarrow> nat \<Rightarrow> sim_state" where
  "sim_after signals initCap now k = sim_loop (sim_init signals initCap now) (take k signals)"

text \<open>The sum of the profit fields that are not \<open>null\<close>, and the sum of the profits of the
  \<open>SELL\<close> trades of a trade log.\<close>

definition nonnull_profit_sum :: "trade list \<Rightarrow> jsnum" where
  "nonnull_profit_sum ts = jsum (List.map_filter tr_profit ts)"

definition closed_profit_sum :: "trade list \<Rightarrow> jsnum" where
  "closed_profit_sum ts =
     jsum (map (\<lambda>t. to_num (tr_profit t)) (filter (\<lambda>t. tr_type t = SELL) ts))"

text \<open>
  Consistency of the running state with the trade log: the counter of closed trades is
  the number of \<open>SELL\<close> entries, and a position is open exactly when the last entry is
  a \<open>BUY\<close>.
\<close>

definition sells :: "trade list \<Rightarrow> trade list" where
  "sells ts = filter (\<lambda>t. tr_type t = SELL) ts"

definition log_consistent :: "sim_state \<Rightarrow> bool" where
  "log_consistent st =
     (st_totalTrades st = int (length (sells (trades st))) \<and>
      (if trades st \<noteq> [] \<and> tr_type (last (trades st)) = BUY
       then jgt (position st) (Fin 0) else position st = Fin 0))"

text \<open>
  The books balance against the initial capital \<open>c\<close>: cash, position and entry price are
  finite, and cash plus the cost of the open position minus \<open>c\<close> is the sum of the
  recorded profits.
\<close>

definition books_balance :: "real \<Rightarrow> sim_state \<Rightarrow> bool" where
  "books_balance c st =
     (case (capital st, position st, entryPrice st, nonnull_profit_sum (trades st)) of
        (Fin a, Fin q, Fin e, Fin s) \<Rightarrow>
          0 \<le> q \<and> a + q * e - c = s \<and> closed_profit_sum (trades st) = Fin s
      | _ \<Rightarrow> False)"

section \<open>The indicator library\<close>

text \<open>
  The functions of \<open>tradingStrategies.ts\<close>. A period is a natural number. None of the
  indicator functions has a \<open>throw\<close>, and none reads a property of a value that can be
  \<open>undefined\<close>: on every input they return an array.
\<close>

text \<open>\<open>calculateEMA\<close>: the seed is the sum of \<open>data.slice(0, period)\<close> divided by
  \<open>period\<close>; the loop runs over \<open>data[period], ..., data[data.length - 1]\<close>.\<close>

fun ema_loop :: "jsnum \<Rightarrow> jsnum \<Rightarrow> jsnum list \<Rightarrow> jsnum list" where
  "ema_loop k ema [] = []"
| "ema_loop k ema (x # xs) =
     (let ema' = jadd (jmul (jsub x ema) k) ema in ema' # ema_loop k ema' xs)"

definition calculateEMA :: "jsnum list \<Rightarrow> nat \<Rightarrow> jsnum list" where
  "calculateEMA data period =
     (let k = jdiv (Fin 2) (Fin (real period + 1));
          ema = jdiv (jsum (take period data)) (Fin (real period))
      in ema # ema_loop k ema (drop period data))"

definition calculateEMA_outcome :: "jsnum list \<Rightarrow> nat \<Rightarrow> error + jsnum list" where
  "calculateEMA_outcome data period = Inr (calculateEMA data period)"

text \<open>\<open>calculateRSI\<close>: the changes \<open>data[i] - data[i - 1]\<close>, split into gains and
  losses.\<close>

fun changes :: "jsnum list \<Rightarrow> jsnum list" where
  "changes (x # y # xs) = jsub y x # changes (y # xs)"
| "changes xs = []"

definition gains_of :: "jsnum list \<Rightarrow> jsnum list" where
  "gains_of data = map (\<lambda>change. if jgt change (Fin 0) then change else Fin 0) (changes data)"

definition losses_of :: "jsnum list \<Rightarrow> jsnum list" where
  "losses_of data =
     map (\<lambda>change. if jlt change (Fin 0) then jabs change else Fin 0) (changes data)"

text \<open>\<open>rs = avgGain / (avgLoss === 0 ? 0.001 : avgLoss); 100 - (100 / (1 + rs))\<close>\<close>

definition rsi_value :: "jsnum \<Rightarrow> jsnum \<Rightarrow> jsnum" where
  "rsi_value avgGain avgLoss =
     (let rs = jdiv avgGain (if jeq avgLoss (Fin 0) then Fin 0.001 else avgLoss)
      in jsub (Fin 100) (jdiv (Fin 100) (jadd (Fin 1) rs)))"

fun rsi_loop :: "nat \<Rightarrow> jsnum \<Rightarrow> jsnum \<Rightarrow> (jsnum \<times> jsnum) list \<Rightarrow> jsnum list" where
  "rsi_loop period avgGain avgLoss [] = []"
| "rsi_loop period avgGain avgLoss ((g, l) # rest) =
     (let avgGain' = jdiv (jadd (jmul avgGain (Fin (real period - 1))) g) (Fin (real period));
          avgLoss' = jdiv (jadd (jmul avgLoss (Fin (real period - 1))) l) (Fin (real period))
      in rsi_value avgGain' avgLoss' # rsi_loop period avgGain' avgLoss' rest)"

definition calculateRSI :: "jsnum list \<Rightarrow> nat \<Rightarrow> jsnum list" where
  "calculateRSI data period =
     (let gains = gains_of data;
          losses = losses_of data;
          avgGain = jdiv (jsum (take period gains)) (Fin (real period));
          avgLoss = jdiv (jsum (take period losses)) (Fin (real period))
      in rsi_value avgGain avgLoss #
         rsi_loop period avgGain avgLoss (zip (drop period gains) (drop period losses)))"

text \<open>\<open>calculateMACD\<close>: the two index loops read \<open>slowEMA\<close> and \<open>macdLine\<close> at computed
  indices, which may lie outside the array.\<close>

record macd_result =
  macdLine :: "jsnum list"
  signalLine :: "jsnum list"
  histogram :: "jsnum list"

definition calculateMACD :: "jsnum list \<Rightarrow> nat \<Rightarrow> nat \<Rightarrow> nat \<Rightarrow> macd_result" where
  "calculateMACD data fastPeriod slowPeriod signalPeriod =
     (let fastEMA = calculateEMA data fastPeriod;
          slowEMA = calculateEMA data slowPeriod;
          d = int (length slowEMA) - int (length fastEMA);
          macdLine' =
            map (\<lambda>i. jsub (fastEMA ! i) (to_num (js_nth slowEMA (int i + d))))
              (filter (\<lambda>i. d \<le> int i) [0..<length fastEMA]);
          signalLine' = calculateEMA macdLine' signalPeriod;
          histogram' =
            map (\<lambda>i. jsub (to_num (js_nth macdLine'
                               (int i + (int (length macdLine') - int (length signalLine')))))
                         (signalLine' ! i))
              [0..<length signalLine']
      in \<lparr>macdLine = macdLine', signalLine = signalLine', histogram = histogram'\<rparr>)"

text \<open>
  \<open>calculateBollingerBands\<close>: the loop index \<open>i\<close> runs from \<open>period - 1\<close> to
  \<open>data.length - 1\<close>; with \<open>j = i - period + 1\<close> the window \<open>data.slice(j, j + period)\<close>
  starts at \<open>j = 0, ..., data.length - period\<close>.
\<close>

record bands =
  middle :: "jsnum list"
  upper :: "jsnum list"
  lower :: "jsnum list"

definition band_avg :: "jsnum list \<Rightarrow> nat \<Rightarrow> jsnum" where
  "band_avg slice period = jdiv (jsum slice) (Fin (real period))"

definition band_sd :: "jsnum list \<Rightarrow> nat \<Rightarrow> jsnum" where
  "band_sd slice period =
     (let avg = band_avg slice period;
          squaredDiffs = map (\<lambda>price. jpow2 (jsub price avg)) slice;
          variance = jdiv (jsum squaredDiffs) (Fin (real period))
      in jsqrt variance)"

definition windows :: "jsnum list \<Rightarrow> nat \<Rightarrow> jsnum list list" where
  "windows data period =
     map (\<lambda>j. take period (drop j data)) [0..<Suc (length data) - period]"

definition calculateBollingerBands :: "jsnum list \<Rightarrow> nat \<Rightarrow> jsnum \<Rightarrow> bands" where
  "calculateBollingerBands data period stdDev =
     \<lparr>middle = map (\<lambda>slice. band_avg slice period) (windows data period),
      upper = map (\<lambda>slice. jadd (band_avg slice period) (jmul stdDev (band_sd slice period)))
                (windows data period),
      lower = map (\<lambda>slice. jsub (band_avg slice period) (jmul stdDev (band_sd slice period)))
                (windows data period)\<rparr>"

section \<open>The strategy functions\<close>

text \<open>
  Each strategy function reads only the \<open>close\<close> field of the elements of \<open>data\<close>; it is
  given the list of these values. Every \<open>return\<close> of the four functions returns an object
  \<open>{signal, meta}\<close>.
\<close>

datatype metaval = MNum "jsnum option" | MBool bool

record strategy_result =
  sr_signal :: string
  sr_meta :: "(string \<times> metaval) list"

definition neutral :: strategy_result where
  "neutral = \<lparr>sr_signal = ''NEUTRAL'', sr_meta = []\<rparr>"

text \<open>\<open>xs[xs.length - 1]\<close> and \<open>xs[xs.length - 2]\<close>\<close>

definition last1 :: "'a list \<Rightarrow> 'a option" where
  "last1 xs = js_nth xs (int (length xs) - 1)"

definition last2 :: "'a list \<Rightarrow> 'a option" where
  "last2 xs = js_nth xs (int (length xs) - 2)"

definition movingAverageCrossover :: "jsnum list \<Rightarrow> nat \<Rightarrow> nat \<Rightarrow> strategy_result" where
  "movingAverageCrossover data shortPeriod longPeriod =
     (if length data < longPeriod then neutral
      else
        (let shortEMA = calculateEMA data shortPeriod;
             longEMA = calculateEMA data longPeriod;
             currentShortEMA = last1 shortEMA;
             previousShortEMA = last2 shortEMA;
             currentLongEMA = last1 longEMA;
             previousLongEMA = last2 longEMA;
             currentCrossover = jgt (to_num currentShortEMA) (to_num currentLongEMA);
             previousCrossover = jgt (to_num previousShortEMA) (to_num previousLongEMA)
         in \<lparr>sr_signal =
               (if currentCrossover \<and> \<not> previousCrossover then ''BUY''
                else if \<not> currentCrossover \<and> previousCrossover then ''SELL''
                else ''NEUTRAL''),
             sr_meta = [(''shortEMA'', MNum currentShortEMA),
                        (''longEMA'', MNum currentLongEMA),
                        (''crossover'', MBool currentCrossover)]\<rparr>))"

definition rsiStrategy :: "jsnum list \<Rightarrow> nat \<Rightarrow> jsnum \<Rightarrow> jsnum \<Rightarrow> strategy_result" where
  "rsiStrategy data period overbought oversold =
     (if length data < period + 14 then neutral
      else
        (let rsiValues = calculateRSI data period;
             currentRSI = last1 rsiValues;
             previousRSI = last2 rsiValues
         in \<lparr>sr_signal =
               (if jlt (to_num currentRSI) oversold \<and> jge (to_num previousRSI) oversold
                then ''BUY''
                else if jgt (to_num currentRSI) overbought \<and> jle (to_num previousRSI) overbought
                then ''SELL''
                else ''NEUTRAL''),
             sr_meta = [(''rsi'', MNum currentRSI),
                        (''overbought'', MNum (Some overbought)),
                        (''oversold'', MNum (Some oversold))]\<rparr>))"

definition macdStrategy :: "jsnum list \<Rightarrow> nat \<Rightarrow> nat \<Rightarrow> nat \<Rightarrow> strategy_result" where
  "macdStrategy data fastPeriod slowPeriod signalPeriod =
     (if length data < slowPeriod + signalPeriod then neutral
      else
        (let m = calculateMACD data fastPeriod slowPeriod signalPeriod;
             currentMacd = last1 (macdLine m);
             currentSignal = last1 (signalLine m);
             currentHistogram = last1 (histogram m);
             previousHistogram = last2 (histogram m)
         in \<lparr>sr_signal =
               (if jgt (to_num currentMacd) (to_num currentSignal) \<and>
                   jle (to_num previousHistogram) (Fin 0) \<and>
                   jgt (to_num currentHistogram) (Fin 0)
                then ''BUY''
                else if jlt (to_num currentMacd) (to_num currentSignal) \<and>
                   jge (to_num previousHistogram) (Fin 0) \<and>
                   jlt (to_num currentHistogram) (Fin 0)
                then ''SELL''
                else ''NEUTRAL''),
             sr_meta = [(''macd'', MNum currentMacd),
                        (''signal'', MNum currentSignal),
                        (''histogram'', MNum currentHistogram)]\<rparr>))"

text \<open>
  \<open>bollingerBandsStrategy\<close> reads \<open>data[data.length - 1].close\<close> and
  \<open>data[data.length - 2].close\<close>: on an array with fewer than two elements the element
  is \<open>undefined\<close> and reading its property throws a \<open>TypeError\<close>.
\<close>

definition bollingerBandsStrategy :: "jsnum list \<Rightarrow> nat \<Rightarrow> jsnum \<Rightarrow> error + strategy_result" where
  "bollingerBandsStrategy data period stdDev =
     (if length data < period then Inr neutral
      else
        (let b = calculateBollingerBands data period stdDev in
         case last1 data of
           None \<Rightarrow> Inl TypeError_undefined_property
         | Some currentPrice \<Rightarrow>
            (let currentUpper = last1 (upper b);
                 currentLower = last1 (lower b)
             in case last2 data of
                  None \<Rightarrow> Inl TypeError_undefined_property
                | Some previousPrice \<Rightarrow>
                   (let previousLower = last2 (lower b);
                        previousUpper = last2 (upper b)
                    in Inr \<lparr>sr_signal =
                         (if jle previousPrice (to_num previousLower) \<and>
                             jgt currentPrice (to_num currentLower)
                          then ''BUY''
                          else if jge previousPrice (to_num previousUpper) \<and>
                             jlt currentPrice (to_num currentUpper)
                          then ''SELL''
                          else ''NEUTRAL''),
                        sr_meta = [(''price'', MNum (Some currentPrice)),
                                   (''upper'', MNum currentUpper),
                                   (''middle'', MNum (last1 (middle b))),
                                   (''lower'', MNum currentLower)]\<rparr>))))"

section \<open>Candles and parameters\<close>

text \<open>
  A candle as the data source returns it. \<open>timestamp\<close> is a number of milliseconds;
  \<open>date\<close> and \<open>time\<close> are dates (given here by the instant they denote); each may be
  absent.
\<close>

record candle =
  c_timestamp :: "int option"
  c_date :: "int option"
  c_time :: "int option"
  c_open :: jsnum
  c_high :: jsnum
  c_low :: jsnum
  c_close :: jsnum
  c_volume :: jsnum

text \<open>\<open>new Date(x)\<close>, where \<open>x\<close> may be \<open>undefined\<close>.\<close>

fun new_Date :: "int option \<Rightarrow> jsdate" where
  "new_Date None = InvalidDate"
| "new_Date (Some t) = DateMs t"

text \<open>\<open>data[i].timestamp || data[i].date\<close>: a timestamp of \<open>0\<close> is falsy.\<close>

definition timestamp_or_date :: "candle \<Rightarrow> int option" where
  "timestamp_or_date c =
     (case c_timestamp c of
        None \<Rightarrow> c_date c
      | Some t \<Rightarrow> if t = 0 then c_date c else Some t)"

text \<open>\<open>bar.date || bar.time\<close>: a date that is present is truthy.\<close>

definition date_or_time :: "candle \<Rightarrow> int option" where
  "date_or_time c = (case c_date c of None \<Rightarrow> c_time c | Some d \<Rightarrow> Some d)"

text \<open>
  The parameters of a run, \<open>Record<string, any>\<close>: the keys the service reads, each
  present or not. Periods are natural numbers.
\<close>

record parameters =
  p_shortPeriod :: "nat option"
  p_longPeriod :: "nat option"
  p_period :: "nat option"
  p_fastPeriod :: "nat option"
  p_slowPeriod :: "nat option"
  p_signalPeriod :: "nat option"
  p_overbought :: "jsnum option"
  p_oversold :: "jsnum option"
  p_stdDev :: "jsnum option"

text \<open>\<open>const { key = d } = parameters\<close>: the default replaces \<open>undefined\<close> only.\<close>

fun dflt :: "'a \<Rightarrow> 'a option \<Rightarrow> 'a" where
  "dflt d None = d"
| "dflt d (Some v) = v"

text \<open>\<open>parameters.key || d\<close>: the default replaces every falsy value.\<close>

fun or_nat :: "nat option \<Rightarrow> nat \<Rightarrow> nat" where
  "or_nat None d = d"
| "or_nat (Some v) d = (if v = 0 then d else v)"

fun or_num :: "jsnum option \<Rightarrow> jsnum \<Rightarrow> jsnum" where
  "or_num None d = d"
| "or_num (Some v) d = (if truthy v then v else d)"

section \<open>The strategy engine, signal-mapping version\<close>

text \<open>
  A value a strategy call may yield at run time: an object or an array. Only an array has
  a \<open>map\<close> method; calling \<open>result.map(...)\<close> on an object throws a \<open>TypeError\<close>.
\<close>

datatype jsvalue = JObject strategy_result | JArray "jsnum list"

fun sequence_err :: "(error + 'a) list \<Rightarrow> error + 'a list" where
  "sequence_err [] = Inr []"
| "sequence_err (x # xs) =
     (case x of
        Inl e \<Rightarrow> Inl e
      | Inr v \<Rightarrow> (case sequence_err xs of Inl e \<Rightarrow> Inl e | Inr vs \<Rightarrow> Inr (v # vs)))"

text \<open>The callback \<open>(signal, i) => ({date: ..., type: ..., price: data[i].close})\<close>.\<close>

definition signal_of :: "candle list \<Rightarrow> jsnum \<Rightarrow> nat \<Rightarrow> error + signal" where
  "signal_of data sval i =
     (case js_nth data (int i) of
        None \<Rightarrow> Inl TypeError_undefined_property
      | Some c \<Rightarrow>
          Inr \<lparr>sig_date = new_Date (timestamp_or_date c),
               sig_type = (if jgt sval (Fin 0) then BUY else if jlt sval (Fin 0) then SELL else HOLD),
               sig_price = c_close c\<rparr>)"

fun map_signals :: "candle list \<Rightarrow> jsvalue \<Rightarrow> error + signal list" where
  "map_signals data (JObject r) = Inl TypeError_not_a_function"
| "map_signals data (JArray xs) =
     sequence_err (map (\<lambda>(sval, i). signal_of data sval i) (zip xs [0..<length xs]))"

text \<open>The strategy call of each \<open>case\<close> of the \<open>switch\<close>, with the defaults of its
  destructuring.\<close>

definition strategy_call :: "string \<Rightarrow> jsnum list \<Rightarrow> parameters \<Rightarrow> error + strategy_result" where
  "strategy_call strategyName closes p =
     (if strategyName = ''Moving Average Crossover'' then
        Inr (movingAverageCrossover closes (dflt 20 (p_shortPeriod p))
               (dflt 50 (p_longPeriod p)))
      else if strategyName = ''RSI Strategy'' then
        Inr (rsiStrategy closes (dflt 14 (p_period p)) (dflt (Fin 70) (p_overbought p))
               (dflt (Fin 30) (p_oversold p)))
      else if strategyName = ''MACD Strategy'' then
        Inr (macdStrategy closes (dflt 12 (p_fastPeriod p)) (dflt 26 (p_slowPeriod p))
               (dflt 9 (p_signalPeriod p)))
      else if strategyName = ''Bollinger Bands Strategy'' then
        bollingerBandsStrategy closes (dflt 20 (p_period p)) (dflt (Fin 2) (p_stdDev p))
      else Inl (StrategyNotSupported strategyName))"

text \<open>\<open>signals.filter(signal => signal.type !== 'HOLD')\<close>: what \<open>applyStrategy\<close> hands on
  to the simulator holds no \<open>HOLD\<close> entry, so a bar without a signal is not in it.\<close>

definition drop_hold :: "signal list \<Rightarrow> signal list" where
  "drop_hold signals = filter (\<lambda>s. sig_type s \<noteq> HOLD) signals"

definition applyStrategy :: "candle list \<Rightarrow> string \<Rightarrow> parameters \<Rightarrow> error + signal list" where
  "applyStrategy data strategyName p =
     (if length data = 0 then Inl NoDataProvided
      else
        (case strategy_call strategyName (map c_close data) p of
           Inl e \<Rightarrow> Inl e
         | Inr result \<Rightarrow>
            (case map_signals data (JObject result) of
               Inl e \<Rightarrow> Inl e
             | Inr signals \<Rightarrow> Inr (drop_hold signals))))"

text \<open>
  \<open>runBacktest\<close>, without the database and the data source: it is given the name of the
  strategy found for \<open>strategyId\<close> (if any), the candles fetched, the current time, and
  the identifier the insertion will assign.
\<close>

record backtest_result =
  backtestId :: int
  br_summary :: summary
  br_trades :: "trade list"
  br_equityCurve :: "equity_point list"

definition runBacktest ::
  "string option \<Rightarrow> candle list \<Rightarrow> jsnum \<Rightarrow> parameters \<Rightarrow> jsdate \<Rightarrow> int \<Rightarrow>
   error + backtest_result"
where
  "runBacktest strategyData historicalData initCap p now new_id =
     (case strategyData of
        None \<Rightarrow> Inl StrategyNotFound
      | Some strategyName \<Rightarrow>
         if length historicalData = 0 then Inl NoHistoricalData
         else
           (case applyStrategy historicalData strategyName p of
              Inl e \<Rightarrow> Inl e
            | Inr signals \<Rightarrow>
               (let r = simulateTrades signals initCap now
                in Inr \<lparr>backtestId = new_id, br_summary = res_summary r,
                        br_trades = res_trades r, br_equityCurve = res_equityCurve r\<rparr>)))"

definition supported :: "string \<Rightarrow> bool" where
  "supported strategyName =
     (strategyName = ''Moving Average Crossover'' \<or> strategyName = ''RSI Strategy'' \<or>
      strategyName = ''MACD Strategy'' \<or> strategyName = ''Bollinger Bands Strategy'')"

section \<open>The strategy engine, bar-by-bar version\<close>

text \<open>
  The second \<open>applyStrategy\<close> of the service calls the strategy on every prefix of the
  data from bar 30 on and returns each bar with its signal (\<open>1\<close> buy, \<open>-1\<close> sell, \<open>0\<close> no
  action).
\<close>

record ohlc_bar =
  b_time :: jsdate
  b_open :: jsnum
  b_high :: jsnum
  b_low :: jsnum
  b_close :: jsnum
  b_volume :: jsnum

record signal_bar = ohlc_bar +
  b_signal :: int

definition to_ohlc :: "candle \<Rightarrow> ohlc_bar" where
  "to_ohlc bar =
     \<lparr>b_time = new_Date (date_or_time bar), b_open = c_open bar, b_high = c_high bar,
      b_low = c_low bar, b_close = c_close bar, b_volume = c_volume bar\<rparr>"

definition strategy_call2 :: "string \<Rightarrow> jsnum list \<Rightarrow> parameters \<Rightarrow> error + strategy_result" where
  "strategy_call2 strategyName closes p =
     (if strategyName = ''Moving Average Crossover'' then
        Inr (movingAverageCrossover closes (or_nat (p_shortPeriod p) 9)
               (or_nat (p_longPeriod p) 21))
      else if strategyName = ''RSI Strategy'' then
        Inr (rsiStrategy closes (or_nat (p_period p) 14) (or_num (p_overbought p) (Fin 70))
               (or_num (p_oversold p) (Fin 30)))
      else if strategyName = ''MACD Strategy'' then
        Inr (macdStrategy closes (or_nat (p_fastPeriod p) 12) (or_nat (p_slowPeriod p) 26)
               (or_nat (p_signalPeriod p) 9))
      else if strategyName = ''Bollinger Bands Strategy'' then
        bollingerBandsStrategy closes (or_nat (p_period p) 20) (or_num (p_stdDev p) (Fin 2))
      else Inl (StrategyNotSupported strategyName))"

text \<open>The body of the loop \<open>for (let i = 0; i < ohlcData.length; i++)\<close>: the signal
  pushed for bar \<open>i\<close>.\<close>

definition signal_at :: "string \<Rightarrow> parameters \<Rightarrow> ohlc_bar list \<Rightarrow> nat \<Rightarrow> error + int" where
  "signal_at strategyName p ohlcData i =
     (let currentData = take (i + 1) ohlcData in
      if 30 \<le> i then
        (case strategy_call2 strategyName (map b_close currentData) p of
           Inl e \<Rightarrow> Inl e
         | Inr result \<Rightarrow>
             Inr (if sr_signal result = ''BUY'' then 1
                  else if sr_signal result = ''SELL'' then - 1 else 0))
      else Inr 0)"

definition with_signal :: "ohlc_bar \<Rightarrow> int \<Rightarrow> signal_bar" where
  "with_signal bar s =
     \<lparr>b_time = b_time bar, b_open = b_open bar, b_high = b_high bar, b_low = b_low bar,
      b_close = b_close bar, b_volume = b_volume bar, b_signal = s\<rparr>"

definition applyStrategy2 :: "string \<Rightarrow> candle list \<Rightarrow> parameters \<Rightarrow> error + signal_bar list" where
  "applyStrategy2 strategyName data p =
     (let ohlcData = map to_ohlc data in
      case sequence_err (map (signal_at strategyName p ohlcData) [0..<length ohlcData]) of
        Inl e \<Rightarrow> Inl e
      | Inr signals \<Rightarrow>
          Inr (map (\<lambda>(bar, index).
                      with_signal bar (if index < length signals then signals ! index else 0))
                 (zip ohlcData [0..<length ohlcData])))"

text \<open>The number of bars below which the strategy function returns \<open>NEUTRAL\<close>, for the
  parameters the bar-by-bar version passes.\<close>

definition lookback2 :: "string \<Rightarrow> parameters \<Rightarrow> nat" where
  "lookback2 strategyName p =
     (if strategyName = ''Moving Average Crossover'' then or_nat (p_longPeriod p) 21
      else if strategyName = ''RSI Strategy'' then or_nat (p_period p) 14 + 14
      else if strategyName = ''MACD Strategy'' then
        or_nat (p_slowPeriod p) 26 + or_nat (p_signalPeriod p) 9
      else or_nat (p_period p) 20)"

section \<open>The read path\<close>

text \<open>
  The columns of a stored backtest that \<open>getBacktestDetails\<close> reads for its summary, the
  values \<open>runBacktest\<close> stores in them, and the summary the read path computes. (The
  equity curve the read path rebuilds day by day is not part of this model.)
\<close>

record backtest_row =
  bt_initialCapital :: jsnum
  bt_finalCapital :: jsnum
  bt_profitLoss :: jsnum
  bt_profitLossPercentage :: jsnum
  bt_totalTrades :: int
  bt_winningTrades :: int
  bt_maxDrawdown :: jsnum

definition stored_row :: "jsnum \<Rightarrow> summary \<Rightarrow> backtest_row" where
  "stored_row initCap s =
     \<lparr>bt_initialCapital = initCap, bt_finalCapital = finalCapital s, bt_profitLoss = profit s,
      bt_profitLossPercentage = profitPercentage s, bt_totalTrades = totalTrades s,
      bt_winningTrades = winningTrades s, bt_maxDrawdown = maxDrawdown s\<rparr>"

definition details_summary :: "backtest_row \<Rightarrow> summary" where
  "details_summary backtest =
     \<lparr>initialCapital = bt_initialCapital backtest,
      finalCapital = bt_finalCapital backtest,
      profit = bt_profitLoss backtest,
      profitPercentage = bt_profitLossPercentage backtest,
      totalTrades = bt_totalTrades backtest,
      winningTrades = bt_winningTrades backtest,
      losingTrades = bt_totalTrades backtest - bt_winningTrades backtest,
      winRate = jmul (jdiv (Fin (of_int (bt_winningTrades backtest)))
                           (Fin (of_int (bt_totalTrades backtest)))) (Fin 100),
      maxDrawdown = bt_maxDrawdown backtest,
      avgTradeProfit = jdiv (bt_profitLoss backtest) (Fin (of_int (bt_totalTrades backtest)))\<rparr>"

record details =
  d_backtest :: backtest_row
  d_trades :: "trade list"
  d_summary :: summary

definition getBacktestDetails :: "backtest_row option \<Rightarrow> trade list \<Rightarrow> details option" where
  "getBacktestDetails found stored_trades =
     (case found of
        None \<Rightarrow> None
      | Some backtest \<Rightarrow>
          Some \<lparr>d_backtest = backtest, d_trades = stored_trades,
                d_summary = details_summary backtest\<rparr>)"

section \<open>Double-precision arithmetic\<close>

text \<open>
  The numbers of the program are IEEE 754 doubles: each arithmetic operation returns the
  exact result rounded to the nearest double, ties to the even significand. \<open>dbl\<close> is
  this rounding of a real: with \<open>e\<close> the binary exponent of \<open>x\<close> (at least \<open>-1022\<close>, below
  which doubles are subnormal and equally spaced), the doubles near \<open>x\<close> are the integer
  multiples of \<open>2 ^ (e - 52)\<close>; a result of magnitude \<open>2 ^ 1024\<close> or more is an infinity.
  The sign of zero is not modelled.
\<close>

definition rne :: "real \<Rightarrow> int" where
  "rne y =
     (let f = \<lfloor>y\<rfloor> in
      if y - of_int f < 1 / 2 then f
      else if 1 / 2 < y - of_int f then f + 1
      else if even f then f else f + 1)"

definition dbl :: "real \<Rightarrow> jsnum" where
  "dbl x =
     (if x = 0 then Fin 0
      else
        (let e = max \<lfloor>log 2 \<bar>x\<bar>\<rfloor> (- 1022);
             q = power_int 2 (e - 52);
             r = of_int (rne (x / q)) * q
         in if 2 ^ 1024 \<le> \<bar>r\<bar> then (if 0 < x then PInf else NInf) else Fin r))"

fun jround :: "jsnum \<Rightarrow> jsnum" where
  "jround (Fin x) = dbl x"
| "jround y = y"

text \<open>The four operations \<open>+\<close>, \<open>-\<close>, \<open>*\<close>, \<open>/\<close> of the program on doubles.\<close>

definition dadd :: "jsnum \<Rightarrow> jsnum \<Rightarrow> jsnum" where
  "dadd x y = jround (jadd x y)"

definition dsub :: "jsnum \<Rightarrow> jsnum \<Rightarrow> jsnum" where
  "dsub x y = jround (jsub x y)"

definition dmul :: "jsnum \<Rightarrow> jsnum \<Rightarrow> jsnum" where
  "dmul x y = jround (jmul x y)"

definition ddiv :: "jsnum \<Rightarrow> jsnum \<Rightarrow> jsnum" where
  "ddiv x y = jround (jdiv x y)"

section \<open>The trade simulator in double precision\<close>

text \<open>
  \<open>simulateTrades\<close> once more, line by line as above, with every arithmetic operation of
  the source rounded as the program rounds it. (\<open>Math.floor\<close> and the comparisons are
  exact on doubles.)
\<close>

text \<open>The branch \<open>signal.type === 'BUY' && position === 0\<close>.\<close>

definition sim_buy_dbl :: "sim_state \<Rightarrow> signal \<Rightarrow> sim_state" where
  "sim_buy_dbl st sg =
     (let quantity = jfloor (ddiv (capital st) (sig_price sg)) in
      if jgt quantity (Fin 0) then
        (let cost = dmul quantity (sig_price sg);
             capital' = dsub (capital st) cost
         in st\<lparr>capital := capital',
               position := quantity,
               entryPrice := sig_price sg,
               trades := trades st @
                 [\<lparr>tr_date = sig_date sg, tr_type = BUY, tr_price = sig_price sg,
                   tr_quantity = quantity, tr_profit = None\<rparr>],
               equityCurve := equityCurve st @
                 [\<lparr>ep_date = sig_date sg,
                   ep_equity = dadd capital' (dmul quantity (sig_price sg))\<rparr>]\<rparr>)
      else st)"

text \<open>The branch \<open>signal.type === 'SELL' && position > 0\<close>.\<close>

definition sim_sell_dbl :: "sim_state \<Rightarrow> signal \<Rightarrow> sim_state" where
  "sim_sell_dbl st sg =
     (let sellValue = dmul (position st) (sig_price sg);
          profit' = dsub sellValue (dmul (position st) (entryPrice st));
          capital' = dadd (capital st) sellValue;
          st1 = st\<lparr>capital := capital',
                   trades := trades st @
                     [\<lparr>tr_date = sig_date sg, tr_type = SELL, tr_price = sig_price sg,
                       tr_quantity = position st, tr_profit = Some profit'\<rparr>],
                   st_winningTrades :=
                     (if jgt profit' (Fin 0) then st_winningTrades st + 1
                      else st_winningTrades st),
                   st_totalTrades := st_totalTrades st + 1,
                   position := Fin 0,
                   entryPrice := Fin 0,
                   equityCurve := equityCurve st @
                     [\<lparr>ep_date = sig_date sg, ep_equity = capital'\<rparr>]\<rparr>
      in if jgt capital' (peak st) then st1\<lparr>peak := capital'\<rparr>
         else (let drawdown = dmul (ddiv (dsub (peak st) capital') (peak st)) (Fin 100)
               in if jgt drawdown (st_maxDrawdown st)
                  then st1\<lparr>st_maxDrawdown := drawdown\<rparr> else st1))"

definition sim_step_dbl :: "sim_state \<Rightarrow> signal \<Rightarrow> sim_state" where
  "sim_step_dbl st sg =
     (if sig_type sg = BUY \<and> jeq (position st) (Fin 0) then sim_buy_dbl st sg
      else if sig_type sg = SELL \<and> jgt (position st) (Fin 0) then sim_sell_dbl st sg
      else st)"

definition sim_loop_dbl :: "sim_state \<Rightarrow> signal list \<Rightarrow> sim_state" where
  "sim_loop_dbl st signals = foldl sim_step_dbl st signals"

text \<open>\<open>// Close any remaining positions at the last price\<close>\<close>

definition sim_close_dbl :: "sim_state \<Rightarrow> signal list \<Rightarrow> sim_state" where
  "sim_close_dbl st signals =
     (if jgt (position st) (Fin 0) \<and> 0 < length signals then
        (let lastSignal = last signals;
             sellValue = dmul (position st) (sig_price lastSignal);
             profit' = dsub sellValue (dmul (position st) (entryPrice st));
             capital' = dadd (capital st) sellValue
         in st\<lparr>capital := capital',
               trades := trades st @
                 [\<lparr>tr_date = sig_date lastSignal, tr_type = SELL,
                   tr_price = sig_price lastSignal,
                   tr_quantity = position st, tr_profit = Some profit'\<rparr>],
               st_winningTrades :=
                 (if jgt profit' (Fin 0) then st_winningTrades st + 1
                  else st_winningTrades st),
               st_totalTrades := st_totalTrades st + 1,
               equityCurve := equityCurve st @
                 [\<lparr>ep_date = sig_date lastSignal, ep_equity = capital'\<rparr>]\<rparr>)
      else st)"

text \<open>\<open>// Calculate summary\<close>\<close>

definition sim_summary_dbl :: "sim_state \<Rightarrow> jsnum \<Rightarrow> summary" where
  "sim_summary_dbl st initCap =
     (let finalCapital' = capital st;
          profit' = dsub finalCapital' initCap;
          profitPercentage' = dmul (ddiv profit' initCap) (Fin 100)
      in \<lparr>initialCapital = initCap,
          finalCapital = finalCapital',
          profit = profit',
          profitPercentage = profitPercentage',
          totalTrades = st_totalTrades st,
          winningTrades = st_winningTrades st,
          losingTrades = st_totalTrades st - st_winningTrades st,
          winRate =
            (if 0 < st_totalTrades st
             then dmul (ddiv (Fin (of_int (st_winningTrades st)))
                             (Fin (of_int (st_totalTrades st)))) (Fin 100)
             else Fin 0),
          maxDrawdown = st_maxDrawdown st,
          avgTradeProfit =
            (if 0 < st_totalTrades st
             then ddiv profit' (Fin (of_int (st_totalTrades st)))
             else Fin 0)\<rparr>)"

definition simulateTrades_dbl :: "signal list \<Rightarrow> jsnum \<Rightarrow> jsdate \<Rightarrow> sim_result" where
  "simulateTrades_dbl signals initCap now =
     (let st = sim_close_dbl (sim_loop_dbl (sim_init signals initCap now) signals) signals
      in \<lparr>res_trades = trades st,
          res_summary = sim_summary_dbl st initCap,
          res_equityCurve = equityCurve st\<rparr>)"

section \<open>Counters of the simulator\<close>

lemma sim_step_counters:
  "0 \<le> st_winningTrades st \<and> st_winningTrades st \<le> st_totalTrades st \<Longrightarrow>
   0 \<le> st_winningTrades (sim_step st sg) \<and>
   st_winningTrades (sim_step st sg) \<le> st_totalTrades (sim_step st sg)"
  by (simp add: sim_step_def sim_buy_def sim_sell_def Let_def)

lemma sim_loop_counters:
  "0 \<le> st_winningTrades st \<and> st_winningTrades st \<le> st_totalTrades st \<Longrightarrow>
   0 \<le> st_winningTrades (sim_loop st sigs) \<and>
   st_winningTrades (sim_loop st sigs) \<le> st_totalTrades (sim_loop st sigs)"
proof (induction sigs arbitrary: st)
  case Nil
  then show ?case by (simp add: sim_loop_def)
next
  case (Cons sg sigs)
  have "sim_loop st (sg # sigs) = sim_loop (sim_step st sg) sigs"
    by (simp add: sim_loop_def)
  with Cons.IH [OF sim_step_counters [OF Cons.prems]] show ?case by simp
qed

lemma sim_close_counters:
  "0 \<le> st_winningTrades st \<and> st_winningTrades st \<le> st_totalTrades st \<Longrightarrow>
   0 \<le> st_winningTrades (sim_close st sigs) \<and>
   st_winningTrades (sim_close st sigs) \<le> st_totalTrades (sim_close st sigs)"
  by (simp add: sim_close_def Let_def)

lemma sim_final_counters:
  "0 \<le> st_winningTrades (sim_close (sim_loop (sim_init sigs c now) sigs) sigs) \<and>
   st_winningTrades (sim_close (sim_loop (sim_init sigs c now) sigs) sigs)
     \<le> st_totalTrades (sim_close (sim_loop (sim_init sigs c now) sigs) sigs)"
  by (rule sim_close_counters, rule sim_loop_counters) (simp add: sim_init_def)

text \<open>
  C5. For every signal sequence and every initial capital, the summary returned by the
  trade simulator satisfies \<open>totalTrades = winningTrades + losingTrades\<close>; both counts
  are non-negative.
\<close>

theorem C5_total_is_winning_plus_losing:
  "totalTrades (res_summary (simulateTrades sigs c now)) =
     winningTrades (res_summary (simulateTrades sigs c now)) +
     losingTrades (res_summary (simulateTrades sigs c now))
   \<and> 0 \<le> winningTrades (res_summary (simulateTrades sigs c now))
   \<and> 0 \<le> losingTrades (res_summary (simulateTrades sigs c now))"
  using sim_final_counters [of sigs c now]
  by (simp add: simulateTrades_def sim_summary_def Let_def)
section \<open>Cash and position in exact arithmetic\<close>

lemma floor_mult_le:
  fixes a p :: real
  assumes "0 < p"
  shows "of_int \<lfloor>a / p\<rfloor> * p \<le> a"
proof -
  have "of_int \<lfloor>a / p\<rfloor> \<le> a / p" by (rule of_int_floor_le)
  then have "of_int \<lfloor>a / p\<rfloor> * p \<le> a / p * p"
    using assms by (intro mult_right_mono) simp_all
  with assms show ?thesis by simp
qed

lemma sim_buy_nonneg:
  assumes "nonneg (capital st)" "nonneg (position st)" "pos_price (sig_price sg)"
  shows "nonneg (capital (sim_buy st sg)) \<and> nonneg (position (sim_buy st sg))"
proof -
  obtain a where a: "capital st = Fin a" "0 \<le> a" using assms(1) by (cases "capital st") auto
  obtain p where p: "sig_price sg = Fin p" "0 < p" using assms(3) by (cases "sig_price sg") auto
  show ?thesis using a p assms(2) floor_mult_le [OF p(2), of a]
    by (simp add: sim_buy_def Let_def jsub_def)
qed

lemma sim_sell_nonneg:
  assumes "nonneg (capital st)" "nonneg (position st)" "pos_price (sig_price sg)"
  shows "nonneg (capital (sim_sell st sg)) \<and> nonneg (position (sim_sell st sg))"
proof -
  obtain a where a: "capital st = Fin a" "0 \<le> a" using assms(1) by (cases "capital st") auto
  obtain q where q: "position st = Fin q" "0 \<le> q" using assms(2) by (cases "position st") auto
  obtain p where p: "sig_price sg = Fin p" "0 < p" using assms(3) by (cases "sig_price sg") auto
  show ?thesis using a q p
    by (simp add: sim_sell_def Let_def jsub_def)
qed

lemma sim_step_nonneg:
  assumes "nonneg (capital st)" "nonneg (position st)" "pos_price (sig_price sg)"
  shows "nonneg (capital (sim_step st sg)) \<and> nonneg (position (sim_step st sg))"
  using sim_buy_nonneg [OF assms] sim_sell_nonneg [OF assms] assms
  by (simp add: sim_step_def)

lemma sim_loop_nonneg:
  assumes "nonneg (capital st)" "nonneg (position st)"
    "list_all (\<lambda>s. pos_price (sig_price s)) sigs"
  shows "nonneg (capital (sim_loop st sigs)) \<and> nonneg (position (sim_loop st sigs))"
  using assms
proof (induction sigs arbitrary: st)
  case Nil
  then show ?case by (simp add: sim_loop_def)
next
  case (Cons sg sigs)
  have step: "nonneg (capital (sim_step st sg)) \<and> nonneg (position (sim_step st sg))"
    using Cons.prems by (intro sim_step_nonneg) simp_all
  have "sim_loop st (sg # sigs) = sim_loop (sim_step st sg) sigs"
    by (simp add: sim_loop_def)
  with Cons.IH [of "sim_step st sg"] step Cons.prems(3) show ?case by simp
qed

lemma sim_close_nonneg:
  assumes "nonneg (capital st)" "nonneg (position st)"
    "list_all (\<lambda>s. pos_price (sig_price s)) sigs"
  shows "nonneg (capital (sim_close st sigs))"
proof (cases "jgt (position st) (Fin 0) \<and> 0 < length sigs")
  case False
  then show ?thesis using assms(1) by (auto simp: sim_close_def)
next
  case True
  then have "last sigs \<in> set sigs" by simp
  then have "pos_price (sig_price (last sigs))" using assms(3) by (simp add: list_all_iff)
  then obtain p where p: "sig_price (last sigs) = Fin p" "0 < p"
    by (cases "sig_price (last sigs)") auto
  obtain a where a: "capital st = Fin a" "0 \<le> a" using assms(1) by (cases "capital st") auto
  obtain q where q: "position st = Fin q" "0 \<le> q" using assms(2) by (cases "position st") auto
  show ?thesis using True a q p by (simp add: sim_close_def Let_def)
qed

lemma list_all_take: "list_all P xs \<Longrightarrow> list_all P (take k xs)"
  by (auto simp: list_all_iff dest: in_set_takeD)


lemma sim_loop_Cons: "sim_loop st (sg # sigs) = sim_loop (sim_step st sg) sigs"
  by (simp add: sim_loop_def)

lemma sim_loop_snoc: "sim_loop st (sigs @ [sg]) = sim_step (sim_loop st sigs) sg"
  by (simp add: sim_loop_def)

lemma sim_after_Suc:
  "k < length sigs \<Longrightarrow> sim_after sigs c now (Suc k) = sim_step (sim_after sigs c now k) (sigs ! k)"
  by (simp add: sim_after_def take_Suc_conv_app_nth sim_loop_snoc)

lemma sim_step_capital:
  "capital (sim_step st sg) =
     (if sig_type sg = BUY \<and> jeq (position st) (Fin 0) \<and>
         jgt (jfloor (jdiv (capital st) (sig_price sg))) (Fin 0)
      then jsub (capital st) (jmul (jfloor (jdiv (capital st) (sig_price sg))) (sig_price sg))
      else if sig_type sg = SELL \<and> jgt (position st) (Fin 0)
      then jadd (capital st) (jmul (position st) (sig_price sg))
      else capital st)"
  by (simp add: sim_step_def sim_buy_def sim_sell_def Let_def jeq_def)

lemma sim_step_buy_amount:
  assumes "sig_type sg = BUY" "jeq (position st) (Fin 0)" "nonneg (capital st)"
    "pos_price (sig_price sg)"
  shows "capital (sim_step st sg) =
           jsub (capital st) (jmul (jfloor (jdiv (capital st) (sig_price sg))) (sig_price sg))"
proof -
  obtain a where a: "capital st = Fin a" "0 \<le> a" using assms(3) by (cases "capital st") auto
  obtain p where p: "sig_price sg = Fin p" "0 < p" using assms(4) by (cases "sig_price sg") auto
  have "0 \<le> \<lfloor>a / p\<rfloor>" using a p by simp
  then have z: "\<not> 0 < \<lfloor>a / p\<rfloor> \<Longrightarrow> \<lfloor>a / p\<rfloor> = 0" by linarith
  show ?thesis using assms(1,2) a p z
    by (auto simp: sim_step_capital jsub_def)
qed

text \<open>
  In exact arithmetic the cash cannot go negative: for every signal sequence with strictly
  positive prices and every initial capital of at least zero, after each processed signal
  the cash balance and the position are finite and at least zero; a \<open>BUY\<close> signal met
  while flat changes the cash by exactly \<open>floor(cash / price) * price\<close>; and the final
  capital is at least zero. (The doubles of the program do not keep this, see below.)
\<close>

lemma cash_never_negative_exact:
  assumes "list_all (\<lambda>s. pos_price (sig_price s)) sigs" and "0 \<le> c"
  shows "(\<forall>k\<le>length sigs.
            nonneg (capital (sim_after sigs (Fin c) now k)) \<and>
            nonneg (position (sim_after sigs (Fin c) now k)))
       \<and> (\<forall>k<length sigs.
            sig_type (sigs ! k) = BUY \<and> jeq (position (sim_after sigs (Fin c) now k)) (Fin 0) \<longrightarrow>
            capital (sim_after sigs (Fin c) now (Suc k)) =
              jsub (capital (sim_after sigs (Fin c) now k))
                (jmul (jfloor (jdiv (capital (sim_after sigs (Fin c) now k)) (sig_price (sigs ! k))))
                   (sig_price (sigs ! k))))
       \<and> nonneg (finalCapital (res_summary (simulateTrades sigs (Fin c) now)))"
proof -
  have i: "nonneg (capital (sim_init sigs (Fin c) now))"
    "nonneg (position (sim_init sigs (Fin c) now))"
    using assms(2) by (simp_all add: sim_init_def)
  have inv: "nonneg (capital (sim_after sigs (Fin c) now k)) \<and>
        nonneg (position (sim_after sigs (Fin c) now k))" for k
    unfolding sim_after_def by (rule sim_loop_nonneg [OF i list_all_take [OF assms(1)]])
  have buy: "capital (sim_after sigs (Fin c) now (Suc k)) =
              jsub (capital (sim_after sigs (Fin c) now k))
                (jmul (jfloor (jdiv (capital (sim_after sigs (Fin c) now k)) (sig_price (sigs ! k))))
                   (sig_price (sigs ! k)))"
    if "k < length sigs" "sig_type (sigs ! k) = BUY"
      "jeq (position (sim_after sigs (Fin c) now k)) (Fin 0)" for k
  proof -
    have "pos_price (sig_price (sigs ! k))"
      using assms(1) that(1) by (simp add: list_all_length)
    with that inv [of k] show ?thesis
      by (simp add: sim_after_Suc sim_step_buy_amount)
  qed
  have fin: "nonneg (finalCapital (res_summary (simulateTrades sigs (Fin c) now)))"
    using sim_close_nonneg [OF _ _ assms(1)] sim_loop_nonneg [OF i assms(1)]
    by (simp add: simulateTrades_def sim_summary_def Let_def)
  from inv buy fin show ?thesis by blast
qed

section \<open>The forced close at the end of the data\<close>

lemma log_consistent_init: "log_consistent (sim_init sigs c now)"
  by (simp add: log_consistent_def sim_init_def sells_def)

lemma jgt_not_zero: "jgt x (Fin 0) \<Longrightarrow> \<not> jeq x (Fin 0)"
  by (cases x) (auto simp: jeq_def)

lemma log_consistent_step:
  assumes "log_consistent st"
  shows "log_consistent (sim_step st sg)"
proof (cases "sig_type sg = BUY \<and> jeq (position st) (Fin 0)")
  case True
  then show ?thesis using assms
    by (simp add: sim_step_def sim_buy_def Let_def log_consistent_def sells_def)
next
  case False
  show ?thesis
  proof (cases "sig_type sg = SELL \<and> jgt (position st) (Fin 0)")
    case True
    then show ?thesis using assms False
      by (simp add: sim_step_def sim_sell_def Let_def log_consistent_def sells_def)
  next
    case False2: False
    then show ?thesis using assms False by (auto simp: sim_step_def)
  qed
qed

lemma log_consistent_loop: "log_consistent st \<Longrightarrow> log_consistent (sim_loop st sigs)"
  by (induction sigs arbitrary: st) (simp_all add: sim_loop_def log_consistent_step)

lemma sim_loop_init_nonempty:
  "jgt (position (sim_loop (sim_init sigs c now) sigs)) (Fin 0) \<Longrightarrow> sigs \<noteq> []"
  by (auto simp: sim_loop_def sim_init_def)

text \<open>
  What the forced close does: whenever the position is still open after the last signal,
  the simulator appends a \<open>SELL\<close> trade for the whole position at the price of the last
  signal it was given, with a profit that is not \<open>null\<close>, and counts it in
  \<open>totalTrades\<close>. When the loop has executed a single \<open>BUY\<close> and nothing else, the run
  ends with \<open>totalTrades = 1\<close> and two trades, the second being the closing \<open>SELL\<close>.
\<close>

lemma forced_close_at_last_signal:
  "(jgt (position (sim_loop (sim_init sigs c now) sigs)) (Fin 0) \<longrightarrow>
      res_trades (simulateTrades sigs c now) =
        trades (sim_loop (sim_init sigs c now) sigs) @
        [\<lparr>tr_date = sig_date (last sigs), tr_type = SELL, tr_price = sig_price (last sigs),
          tr_quantity = position (sim_loop (sim_init sigs c now) sigs),
          tr_profit = Some (jsub
            (jmul (position (sim_loop (sim_init sigs c now) sigs)) (sig_price (last sigs)))
            (jmul (position (sim_loop (sim_init sigs c now) sigs))
                  (entryPrice (sim_loop (sim_init sigs c now) sigs))))\<rparr>]
      \<and> totalTrades (res_summary (simulateTrades sigs c now)) =
          st_totalTrades (sim_loop (sim_init sigs c now) sigs) + 1)
   \<and> (trades (sim_loop (sim_init sigs c now) sigs) = [b] \<and> tr_type b = BUY \<longrightarrow>
      totalTrades (res_summary (simulateTrades sigs c now)) = 1
      \<and> length (res_trades (simulateTrades sigs c now)) = 2
      \<and> tr_type (last (res_trades (simulateTrades sigs c now))) = SELL
      \<and> tr_price (last (res_trades (simulateTrades sigs c now))) = sig_price (last sigs)
      \<and> tr_profit (last (res_trades (simulateTrades sigs c now))) \<noteq> None)"
proof -
  let ?st = "sim_loop (sim_init sigs c now) sigs"
  have lc: "log_consistent ?st"
    by (rule log_consistent_loop [OF log_consistent_init])
  have A: "res_trades (simulateTrades sigs c now) =
        trades ?st @
        [\<lparr>tr_date = sig_date (last sigs), tr_type = SELL, tr_price = sig_price (last sigs),
          tr_quantity = position ?st,
          tr_profit = Some (jsub (jmul (position ?st) (sig_price (last sigs)))
            (jmul (position ?st) (entryPrice ?st)))\<rparr>]
      \<and> totalTrades (res_summary (simulateTrades sigs c now)) = st_totalTrades ?st + 1"
    if "jgt (position ?st) (Fin 0)"
    using that sim_loop_init_nonempty [OF that]
    by (simp add: simulateTrades_def sim_close_def sim_summary_def Let_def)
  have B: "jgt (position ?st) (Fin 0) \<and> st_totalTrades ?st = 0"
    if "trades ?st = [b] \<and> tr_type b = BUY"
    using that lc by (simp add: log_consistent_def sells_def)
  show ?thesis using A B by auto
qed

text \<open>A run that ends with an open position did not end on a \<open>SELL\<close> signal: on the
  list without \<open>HOLD\<close> entries the simulator is given, the last signal is then a \<open>BUY\<close>.\<close>

lemma sim_step_sell_flat:
  "sig_type sg = SELL \<Longrightarrow> \<not> jgt (position (sim_step st sg)) (Fin 0)"
  by (simp add: sim_step_def sim_sell_def Let_def)

lemma open_position_last_not_sell:
  assumes "jgt (position (sim_loop (sim_init sigs c now) sigs)) (Fin 0)"
  shows "sig_type (last sigs) \<noteq> SELL"
proof
  assume s: "sig_type (last sigs) = SELL"
  have "sigs \<noteq> []" by (rule sim_loop_init_nonempty [OF assms])
  then have "sigs = butlast sigs @ [last sigs]" by simp
  then have "sim_loop (sim_init sigs c now) sigs =
      sim_step (sim_loop (sim_init sigs c now) (butlast sigs)) (last sigs)"
    by (metis sim_loop_snoc)
  with sim_step_sell_flat [OF s] assms show False by simp
qed

section \<open>Profit accounting in exact arithmetic\<close>

lemma jsum_snoc: "jsum (xs @ [x]) = jadd (jsum xs) x"
  by (simp add: jsum_def)

lemma map_filter_snoc:
  "List.map_filter f (xs @ [x]) = List.map_filter f xs @ (case f x of None \<Rightarrow> [] | Some y \<Rightarrow> [y])"
  by (simp add: List.map_filter_def split: option.splits)

lemma nonnull_profit_sum_snoc:
  "nonnull_profit_sum (ts @ [t]) =
     (case tr_profit t of None \<Rightarrow> nonnull_profit_sum ts
      | Some y \<Rightarrow> jadd (nonnull_profit_sum ts) y)"
  by (simp add: nonnull_profit_sum_def map_filter_snoc jsum_snoc split: option.splits)

lemma closed_profit_sum_snoc:
  "closed_profit_sum (ts @ [t]) =
     (if tr_type t = SELL then jadd (closed_profit_sum ts) (to_num (tr_profit t))
      else closed_profit_sum ts)"
  by (simp add: closed_profit_sum_def jsum_snoc)

lemma books_balanceD:
  assumes "books_balance c st"
  obtains a q e s where "capital st = Fin a" "position st = Fin q" "entryPrice st = Fin e"
    "nonnull_profit_sum (trades st) = Fin s" "closed_profit_sum (trades st) = Fin s"
    "0 \<le> q" "a + q * e - c = s"
  using assms unfolding books_balance_def
  by (auto split: jsnum.splits)

lemma books_balanceI:
  assumes "capital st = Fin a" "position st = Fin q" "entryPrice st = Fin e"
    "nonnull_profit_sum (trades st) = Fin s" "closed_profit_sum (trades st) = Fin s"
    "0 \<le> q" "a + q * e - c = s"
  shows "books_balance c st"
  using assms unfolding books_balance_def by simp

lemma books_balance_init: "books_balance c (sim_init sigs (Fin c) now)"
  by (simp add: books_balance_def sim_init_def nonnull_profit_sum_def closed_profit_sum_def
      jsum_def List.map_filter_def)

lemma books_balance_buy:
  assumes "books_balance c st" "nonzero_price (sig_price sg)" "jeq (position st) (Fin 0)"
  shows "books_balance c (sim_buy st sg)"
proof -
  obtain p where p: "sig_price sg = Fin p" "p \<noteq> 0"
    using assms(2) by (cases "sig_price sg") auto
  from assms(1) obtain a q e s where v: "capital st = Fin a" "position st = Fin q"
    "entryPrice st = Fin e" "nonnull_profit_sum (trades st) = Fin s"
    "closed_profit_sum (trades st) = Fin s" "0 \<le> q" "a + q * e - c = s"
    by (rule books_balanceD)
  have q0: "q = 0" using assms(3) v(2) by (simp add: jeq_def)
  show ?thesis
  proof (cases "jgt (jfloor (jdiv (capital st) (sig_price sg))) (Fin 0)")
    case False
    then show ?thesis using assms(1) by (simp add: sim_buy_def Let_def)
  next
    case True
    then have pos: "0 < real_of_int \<lfloor>a / p\<rfloor>" using v(1) p by simp
    show ?thesis
      apply (rule books_balanceI [where a = "a - of_int \<lfloor>a / p\<rfloor> * p"
            and q = "of_int \<lfloor>a / p\<rfloor>" and e = p and s = s])
      using True v p q0 pos
      by (simp_all add: sim_buy_def Let_def jsub_def nonnull_profit_sum_snoc closed_profit_sum_snoc)
  qed
qed

lemma books_balance_sell:
  assumes "books_balance c st" "nonzero_price (sig_price sg)"
  shows "books_balance c (sim_sell st sg)"
proof -
  obtain p where p: "sig_price sg = Fin p" "p \<noteq> 0"
    using assms(2) by (cases "sig_price sg") auto
  from assms(1) obtain a q e s where v: "capital st = Fin a" "position st = Fin q"
    "entryPrice st = Fin e" "nonnull_profit_sum (trades st) = Fin s"
    "closed_profit_sum (trades st) = Fin s" "0 \<le> q" "a + q * e - c = s"
    by (rule books_balanceD)
  show ?thesis
    apply (rule books_balanceI [where a = "a + q * p" and q = 0 and e = 0
          and s = "s + (q * p - q * e)"])
    using v p
    by (simp_all add: sim_sell_def Let_def jsub_def nonnull_profit_sum_snoc closed_profit_sum_snoc
        algebra_simps)
qed

lemma books_balance_step:
  assumes "books_balance c st" "nonzero_price (sig_price sg)"
  shows "books_balance c (sim_step st sg)"
  using books_balance_buy [OF assms] books_balance_sell [OF assms] assms(1)
  by (simp add: sim_step_def)

lemma books_balance_loop:
  "books_balance c st \<Longrightarrow> list_all (\<lambda>s. nonzero_price (sig_price s)) sigs \<Longrightarrow>
   books_balance c (sim_loop st sigs)"
  by (induction sigs arbitrary: st) (simp_all add: sim_loop_def books_balance_step)

lemma sells_count_step:
  "st_totalTrades st = int (length (sells (trades st))) \<Longrightarrow>
   st_totalTrades (sim_close st sigs) = int (length (sells (trades (sim_close st sigs))))"
  by (simp add: sim_close_def Let_def sells_def)

lemma books_balance_close:
  assumes "books_balance c st" "list_all (\<lambda>s. nonzero_price (sig_price s)) sigs"
    "sigs \<noteq> []"
  shows "\<exists>a. capital (sim_close st sigs) = Fin a \<and>
             nonnull_profit_sum (trades (sim_close st sigs)) = Fin (a - c) \<and>
             closed_profit_sum (trades (sim_close st sigs)) = Fin (a - c)"
proof -
  from assms(1) obtain a q e s where v: "capital st = Fin a" "position st = Fin q"
    "entryPrice st = Fin e" "nonnull_profit_sum (trades st) = Fin s"
    "closed_profit_sum (trades st) = Fin s" "0 \<le> q" "a + q * e - c = s"
    by (rule books_balanceD)
  show ?thesis
  proof (cases "jgt (position st) (Fin 0) \<and> 0 < length sigs")
    case False
    then have "sim_close st sigs = st" by (auto simp: sim_close_def)
    moreover have "q = 0" using False v(2,6) assms(3) by simp
    ultimately show ?thesis using v by auto
  next
    case True
    then have "last sigs \<in> set sigs" by simp
    then have "nonzero_price (sig_price (last sigs))" using assms(2) by (simp add: list_all_iff)
    then obtain p where p: "sig_price (last sigs) = Fin p"
      by (cases "sig_price (last sigs)") auto
    show ?thesis using True v p
      by (simp add: sim_close_def Let_def jsub_def nonnull_profit_sum_snoc closed_profit_sum_snoc
          algebra_simps)
  qed
qed

lemma sells_count_final:
  "st_totalTrades (sim_close (sim_loop (sim_init sigs c now) sigs) sigs) =
     int (length (sells (trades (sim_close (sim_loop (sim_init sigs c now) sigs) sigs))))"
proof -
  have "log_consistent (sim_loop (sim_init sigs c now) sigs)"
    by (rule log_consistent_loop [OF log_consistent_init])
  then show ?thesis by (intro sells_count_step) (simp add: log_consistent_def)
qed

lemma profit_is_sum:
  assumes "list_all (\<lambda>s. nonzero_price (sig_price s)) sigs"
  shows "\<exists>s. profit (res_summary (simulateTrades sigs (Fin c) now)) = Fin s
           \<and> nonnull_profit_sum (res_trades (simulateTrades sigs (Fin c) now)) = Fin s
           \<and> closed_profit_sum (res_trades (simulateTrades sigs (Fin c) now)) = Fin s"
proof (cases "sigs = []")
  case True
  then show ?thesis
    by (simp add: simulateTrades_def sim_loop_def sim_close_def sim_init_def sim_summary_def
        Let_def jsub_def nonnull_profit_sum_def closed_profit_sum_def jsum_def
        List.map_filter_def)
next
  case False
  have "books_balance c (sim_loop (sim_init sigs (Fin c) now) sigs)"
    by (rule books_balance_loop [OF books_balance_init assms])
  from books_balance_close [OF this assms False] show ?thesis
    by (auto simp: simulateTrades_def sim_summary_def Let_def jsub_def)
qed

text \<open>
  In exact arithmetic the capital difference is the sum of the trade profits: for every
  run on finite, non-zero prices and a finite initial capital, \<open>avgTradeProfit\<close> is the sum
  of the profits of the \<open>SELL\<close> trades divided by \<open>totalTrades\<close>, and \<open>0\<close> when
  \<open>totalTrades\<close>, the number of \<open>SELL\<close> trades, is zero; and
  \<open>finalCapital - initialCapital\<close> is the sum of the profit fields that are not \<open>null\<close>.
  (The doubles of the program do not keep this, see below.)
\<close>

lemma avg_trade_profit_exact:
  assumes "list_all (\<lambda>s. nonzero_price (sig_price s)) sigs"
  shows "avgTradeProfit (res_summary (simulateTrades sigs (Fin c) now)) =
           (if 0 < totalTrades (res_summary (simulateTrades sigs (Fin c) now))
            then jdiv (closed_profit_sum (res_trades (simulateTrades sigs (Fin c) now)))
                   (Fin (of_int (totalTrades (res_summary (simulateTrades sigs (Fin c) now)))))
            else Fin 0)
       \<and> totalTrades (res_summary (simulateTrades sigs (Fin c) now)) =
           int (length (sells (res_trades (simulateTrades sigs (Fin c) now))))
       \<and> jsub (finalCapital (res_summary (simulateTrades sigs (Fin c) now)))
              (initialCapital (res_summary (simulateTrades sigs (Fin c) now))) =
           nonnull_profit_sum (res_trades (simulateTrades sigs (Fin c) now))
       \<and> closed_profit_sum (res_trades (simulateTrades sigs (Fin c) now)) =
           nonnull_profit_sum (res_trades (simulateTrades sigs (Fin c) now))
       \<and> (\<exists>s. nonnull_profit_sum (res_trades (simulateTrades sigs (Fin c) now)) = Fin s)"
proof -
  have p: "profit (res_summary (simulateTrades sigs (Fin c) now)) =
             jsub (finalCapital (res_summary (simulateTrades sigs (Fin c) now)))
              (initialCapital (res_summary (simulateTrades sigs (Fin c) now)))"
    by (simp add: simulateTrades_def sim_summary_def Let_def)
  have a: "avgTradeProfit (res_summary (simulateTrades sigs (Fin c) now)) =
           (if 0 < totalTrades (res_summary (simulateTrades sigs (Fin c) now))
            then jdiv (profit (res_summary (simulateTrades sigs (Fin c) now)))
                   (Fin (of_int (totalTrades (res_summary (simulateTrades sigs (Fin c) now)))))
            else Fin 0)"
    by (simp add: simulateTrades_def sim_summary_def Let_def)
  have t: "totalTrades (res_summary (simulateTrades sigs (Fin c) now)) =
           int (length (sells (res_trades (simulateTrades sigs (Fin c) now))))"
    using sells_count_final [of sigs "Fin c" now]
    by (simp add: simulateTrades_def sim_summary_def Let_def)
  from profit_is_sum [OF assms, of c now] obtain s where
    s: "profit (res_summary (simulateTrades sigs (Fin c) now)) = Fin s"
      "nonnull_profit_sum (res_trades (simulateTrades sigs (Fin c) now)) = Fin s"
      "closed_profit_sum (res_trades (simulateTrades sigs (Fin c) now)) = Fin s"
    by blast
  have P1: "profit (res_summary (simulateTrades sigs (Fin c) now)) =
           nonnull_profit_sum (res_trades (simulateTrades sigs (Fin c) now))"
    and P2: "profit (res_summary (simulateTrades sigs (Fin c) now)) =
           closed_profit_sum (res_trades (simulateTrades sigs (Fin c) now))"
    using s by simp_all
  note c1 = a [unfolded P2]
  note c3 = P1 [unfolded p]
  note c4 = trans [OF P2 [symmetric] P1]
  have c5: "\<exists>s. nonnull_profit_sum (res_trades (simulateTrades sigs (Fin c) now)) = Fin s"
    using s(2) by blast
  show ?thesis by (intro conjI c1 t c3 c4 c5)
qed

section \<open>Initial capital that is not positive\<close>

lemma sim_step_idle:
  assumes "capital st = Fin a" "a \<le> 0" "position st = Fin 0" "pos_price (sig_price sg)"
  shows "sim_step st sg = st"
proof -
  obtain p where p: "sig_price sg = Fin p" "0 < p"
    using assms(4) by (cases "sig_price sg") auto
  have "a / p \<le> 0" using assms(2) p(2) by (simp add: divide_le_0_iff)
  then have "\<lfloor>a / p\<rfloor> \<le> 0" by (simp add: floor_le_zero)
  then have "\<not> 0 < \<lfloor>a / p\<rfloor>" by simp
  then show ?thesis using assms(1,3) p
    by (simp add: sim_step_def sim_buy_def Let_def)
qed

lemma sim_loop_idle:
  assumes "capital st = Fin a" "a \<le> 0" "position st = Fin 0"
    "list_all (\<lambda>s. pos_price (sig_price s)) sigs"
  shows "sim_loop st sigs = st"
  using assms(4)
proof (induction sigs)
  case Nil
  show ?case by (simp add: sim_loop_def)
next
  case (Cons sg sigs)
  then have "sim_step st sg = st" using assms(1-3) by (intro sim_step_idle) simp_all
  with Cons show ?case by (simp add: sim_loop_Cons)
qed

lemma simulateTrades_outcome_returns: "simulateTrades_outcome sigs cap now \<noteq> Inl e"
  by (simp add: simulateTrades_outcome_def)

text \<open>
  C2 (as the code has it). The simulator does not check the initial capital and never
  fails. With an initial capital of zero or less and strictly positive prices no \<open>BUY\<close>
  is affordable, so the run returns an empty trade list, \<open>totalTrades = 0\<close>, a profit of
  zero and a final capital equal to the initial one.
\<close>

theorem C2_nonpositive_capital_returns:
  assumes "c \<le> 0" and "list_all (\<lambda>s. pos_price (sig_price s)) sigs"
  shows "(\<exists>r. simulateTrades_outcome sigs (Fin c) now = Inr r
            \<and> res_trades r = []
            \<and> totalTrades (res_summary r) = 0
            \<and> finalCapital (res_summary r) = Fin c
            \<and> profit (res_summary r) = Fin 0)
       \<and> (\<forall>cap. simulateTrades_outcome sigs cap now \<noteq> Inl InvalidParameter)"
proof -
  have "sim_loop (sim_init sigs (Fin c) now) sigs = sim_init sigs (Fin c) now"
    by (rule sim_loop_idle [OF _ assms(1) _ assms(2)]) (simp_all add: sim_init_def)
  then have "\<exists>r. simulateTrades_outcome sigs (Fin c) now = Inr r
            \<and> res_trades r = []
            \<and> totalTrades (res_summary r) = 0
            \<and> finalCapital (res_summary r) = Fin c
            \<and> profit (res_summary r) = Fin 0"
    by (simp add: simulateTrades_outcome_def simulateTrades_def sim_close_def sim_init_def
        sim_summary_def jsub_def Let_def)
  then show ?thesis using simulateTrades_outcome_returns by blast
qed

theorem C2_nonpositive_capital_returns_witness:
  "(0::real) \<le> 0
   \<and> list_all (\<lambda>s. pos_price (sig_price s))
       [\<lparr>sig_date = DateMs 1, sig_type = BUY, sig_price = Fin 100\<rparr>]
   \<and> (\<exists>r. simulateTrades_outcome
             [\<lparr>sig_date = DateMs 1, sig_type = BUY, sig_price = Fin 100\<rparr>] (Fin 0) (DateMs 0)
           = Inr r
         \<and> res_trades r = [] \<and> totalTrades (res_summary r) = 0
         \<and> finalCapital (res_summary r) = Fin 0 \<and> profit (res_summary r) = Fin 0)"
proof -
  have h1: "(0::real) \<le> 0" by simp
  have h2: "list_all (\<lambda>s. pos_price (sig_price s))
       [\<lparr>sig_date = DateMs 1, sig_type = BUY, sig_price = Fin 100\<rparr>]" by simp
  from C2_nonpositive_capital_returns [OF h1 h2, of "DateMs 0"] h1 h2 show ?thesis by blast
qed

text \<open>
  The claim as stated fails: with \<open>initialCapital = 0\<close> the simulator returns a summary
  (whose \<open>profitPercentage\<close> is \<open>0 / 0 * 100 = NaN\<close>) instead of failing.
\<close>

theorem C2_zero_capital_counterexample:
  "simulateTrades_outcome
     [\<lparr>sig_date = DateMs 1, sig_type = BUY, sig_price = Fin 100\<rparr>] (Fin 0) (DateMs 0)
   = Inr \<lparr>res_trades = [],
          res_summary =
            \<lparr>initialCapital = Fin 0, finalCapital = Fin 0, profit = Fin 0,
             profitPercentage = NaN, totalTrades = 0, winningTrades = 0, losingTrades = 0,
             winRate = Fin 0, maxDrawdown = Fin 0, avgTradeProfit = Fin 0\<rparr>,
          res_equityCurve = [\<lparr>ep_date = DateMs 1, ep_equity = Fin 0\<rparr>]\<rparr>"
  by (simp add: simulateTrades_outcome_def simulateTrades_def sim_loop_def sim_init_def
      sim_step_def sim_buy_def sim_close_def sim_summary_def jeq_def jsub_def Let_def)
section \<open>The win rate of the two summaries\<close>

lemma simulator_winRate:
  "winRate (res_summary (simulateTrades sigs c now)) =
     (if totalTrades (res_summary (simulateTrades sigs c now)) = 0 then Fin 0
      else Fin (real_of_int (winningTrades (res_summary (simulateTrades sigs c now))) /
                real_of_int (totalTrades (res_summary (simulateTrades sigs c now))) * 100))"
  using sim_final_counters [of sigs c now]
  by (auto simp: simulateTrades_def sim_summary_def Let_def)

lemma details_winRate:
  "bt_totalTrades b \<noteq> 0 \<Longrightarrow>
   winRate (details_summary b) =
     Fin (real_of_int (bt_winningTrades b) / real_of_int (bt_totalTrades b) * 100)"
  by (simp add: details_summary_def)

text \<open>
  C6. The summary of the simulator has \<open>winRate = 0\<close> when \<open>totalTrades = 0\<close>, but the
  summary the read path computes from the row stored for such a run has
  \<open>winRate = 0 / 0 * 100 = NaN\<close> (and \<open>avgTradeProfit = NaN\<close>): the read path divides
  without the guard \<open>totalTrades > 0\<close> of the simulator.
\<close>

theorem C6_read_path_no_trades:
  "winRate (res_summary (simulateTrades [] (Fin 10000) (DateMs 0))) = Fin 0
   \<and> totalTrades (details_summary (stored_row (Fin 10000)
        (res_summary (simulateTrades [] (Fin 10000) (DateMs 0))))) = 0
   \<and> winRate (details_summary (stored_row (Fin 10000)
        (res_summary (simulateTrades [] (Fin 10000) (DateMs 0))))) = NaN
   \<and> avgTradeProfit (details_summary (stored_row (Fin 10000)
        (res_summary (simulateTrades [] (Fin 10000) (DateMs 0))))) = NaN"
  by (simp add: simulateTrades_def sim_loop_def sim_init_def sim_close_def sim_summary_def
      details_summary_def stored_row_def jsub_def Let_def)

section \<open>The moving average on short input\<close>

lemma calculateEMA_short:
  "length data < period \<Longrightarrow> calculateEMA data period = [jdiv (jsum data) (Fin (real period))]"
  by (simp add: calculateEMA_def Let_def)

text \<open>
  C8 (as the code has it). With fewer prices than \<open>period\<close>, \<open>calculateEMA\<close> does not
  fail: it returns the one-element array holding the sum of all the prices divided by
  \<open>period\<close>. Its caller \<open>movingAverageCrossover\<close> does not fail either: with fewer
  elements than \<open>longPeriod\<close> it returns the \<open>NEUTRAL\<close> signal with an empty \<open>meta\<close>.
\<close>

theorem C8_ema_short_input:
  assumes "length prices < period"
  shows "calculateEMA_outcome prices period = Inr [jdiv (jsum prices) (Fin (real period))]
       \<and> movingAverageCrossover prices shortPeriod period = neutral"
  using assms by (simp add: calculateEMA_outcome_def calculateEMA_short movingAverageCrossover_def)

theorem C8_ema_short_input_witness:
  "length [Fin 1] < (2::nat) \<and> calculateEMA_outcome [Fin 1] 2 = Inr [Fin (1 / 2)]
   \<and> movingAverageCrossover [Fin 1] 1 2 = \<lparr>sr_signal = ''NEUTRAL'', sr_meta = []\<rparr>"
proof -
  have h: "length [Fin 1] < (2::nat)" by simp
  from C8_ema_short_input [OF h, of 1] h show ?thesis by (simp add: jsum_def neutral_def)
qed

text \<open>The claim as stated fails: two prices and a period of four give a value, not an
  error.\<close>

theorem C8_ema_counterexample:
  "calculateEMA_outcome [Fin 3, Fin 5] 4 = Inr [Fin 2]"
  by (simp add: calculateEMA_outcome_def calculateEMA_def jsum_def Let_def)

section \<open>The RSI of a series without losses\<close>

















section \<open>The signal-mapping strategy engine\<close>

lemma bollinger_error:
  "bollingerBandsStrategy data period stdDev = Inl e \<Longrightarrow> e = TypeError_undefined_property"
  by (auto simp: bollingerBandsStrategy_def Let_def split: if_splits option.splits)

lemma bollinger_two:
  "2 \<le> length data \<Longrightarrow> \<exists>r. bollingerBandsStrategy data period stdDev = Inr r"
  by (auto simp: bollingerBandsStrategy_def Let_def last1_def last2_def js_nth_def
      split: option.splits)

lemma strategy_call_supported:
  assumes "supported strategyName"
  shows "(\<exists>r. strategy_call strategyName closes p = Inr r) \<or>
         strategy_call strategyName closes p = Inl TypeError_undefined_property"
proof (cases "strategyName = ''Bollinger Bands Strategy''")
  case True
  then show ?thesis
    using bollinger_error [of closes "dflt 20 (p_period p)" "dflt (Fin 2) (p_stdDev p)"]
    by (cases "bollingerBandsStrategy closes (dflt 20 (p_period p)) (dflt (Fin 2) (p_stdDev p))")
       (simp_all add: strategy_call_def)
next
  case False
  then show ?thesis using assms by (auto simp: strategy_call_def supported_def)
qed

lemma strategy_call_returns:
  assumes "supported strategyName"
    "strategyName \<noteq> ''Bollinger Bands Strategy'' \<or> 2 \<le> length closes"
  shows "\<exists>r. strategy_call strategyName closes p = Inr r"
proof (cases "strategyName = ''Bollinger Bands Strategy''")
  case True
  then show ?thesis
    using assms(2) bollinger_two [of closes "dflt 20 (p_period p)" "dflt (Fin 2) (p_stdDev p)"]
    by (simp add: strategy_call_def)
next
  case False
  then show ?thesis using assms by (auto simp: strategy_call_def supported_def)
qed

lemma applyStrategy_fails:
  assumes "supported strategyName" "data \<noteq> []"
  shows "applyStrategy data strategyName p = Inl TypeError_not_a_function \<or>
         applyStrategy data strategyName p = Inl TypeError_undefined_property"
  using strategy_call_supported [OF assms(1), of "map c_close data" p] assms(2)
  by (auto simp: applyStrategy_def)

lemma runBacktest_error:
  "data \<noteq> [] \<Longrightarrow> applyStrategy data strategyName p = Inl e \<Longrightarrow>
   runBacktest (Some strategyName) data initCap p now new_id = Inl e"
  by (simp add: runBacktest_def)

text \<open>
  C10. For each of the four supported strategy names and every non-empty candle sequence,
  the signal-mapping \<open>applyStrategy\<close> throws a \<open>TypeError\<close> and returns no signal list,
  and \<open>runBacktest\<close> fails with the same error before the simulator is called. The
  strategy functions return an object, on which \<open>result.map\<close> is not a function; the one
  other way to the error is \<open>bollingerBandsStrategy\<close> on a single candle, which throws
  while reading \<open>data[data.length - 2].close\<close>.
\<close>

theorem C10_signal_mapping_fails:
  assumes "supported strategyName" and "data \<noteq> []"
  shows "((applyStrategy data strategyName p = Inl TypeError_not_a_function \<and>
           runBacktest (Some strategyName) data initCap p now new_id
             = Inl TypeError_not_a_function) \<or>
          (applyStrategy data strategyName p = Inl TypeError_undefined_property \<and>
           runBacktest (Some strategyName) data initCap p now new_id
             = Inl TypeError_undefined_property))
       \<and> (strategyName \<noteq> ''Bollinger Bands Strategy'' \<or> 2 \<le> length data \<longrightarrow>
           applyStrategy data strategyName p = Inl TypeError_not_a_function)"
proof -
  have A: "(applyStrategy data strategyName p = Inl TypeError_not_a_function \<and>
           runBacktest (Some strategyName) data initCap p now new_id
             = Inl TypeError_not_a_function) \<or>
          (applyStrategy data strategyName p = Inl TypeError_undefined_property \<and>
           runBacktest (Some strategyName) data initCap p now new_id
             = Inl TypeError_undefined_property)"
    using applyStrategy_fails [OF assms, of p] runBacktest_error [OF assms(2)] by blast
  have B: "applyStrategy data strategyName p = Inl TypeError_not_a_function"
    if "strategyName \<noteq> ''Bollinger Bands Strategy'' \<or> 2 \<le> length data"
  proof -
    from that have "strategyName \<noteq> ''Bollinger Bands Strategy'' \<or> 2 \<le> length (map c_close data)"
      by simp
    from strategy_call_returns [OF assms(1) this, of p] assms(2) show ?thesis
      by (auto simp: applyStrategy_def)
  qed
  from A B show ?thesis by blast
qed

theorem C10_signal_mapping_fails_witness:
  "supported ''MACD Strategy''
   \<and> [\<lparr>c_timestamp = Some 86400000, c_date = None, c_time = None, c_open = Fin 100,
        c_high = Fin 102, c_low = Fin 99, c_close = Fin 101, c_volume = Fin 5000\<rparr>] \<noteq> []
   \<and> applyStrategy
        [\<lparr>c_timestamp = Some 86400000, c_date = None, c_time = None, c_open = Fin 100,
          c_high = Fin 102, c_low = Fin 99, c_close = Fin 101, c_volume = Fin 5000\<rparr>]
        ''MACD Strategy''
        \<lparr>p_shortPeriod = None, p_longPeriod = None, p_period = None, p_fastPeriod = None,
         p_slowPeriod = None, p_signalPeriod = None, p_overbought = None, p_oversold = None,
         p_stdDev = None\<rparr>
       = Inl TypeError_not_a_function
   \<and> runBacktest (Some ''MACD Strategy'')
        [\<lparr>c_timestamp = Some 86400000, c_date = None, c_time = None, c_open = Fin 100,
          c_high = Fin 102, c_low = Fin 99, c_close = Fin 101, c_volume = Fin 5000\<rparr>]
        (Fin 10000)
        \<lparr>p_shortPeriod = None, p_longPeriod = None, p_period = None, p_fastPeriod = None,
         p_slowPeriod = None, p_signalPeriod = None, p_overbought = None, p_oversold = None,
         p_stdDev = None\<rparr>
        (DateMs 0) 1
       = Inl TypeError_not_a_function"
proof -
  have h1: "supported ''MACD Strategy''" by (simp add: supported_def)
  have h2: "[\<lparr>c_timestamp = Some 86400000, c_date = None, c_time = None, c_open = Fin 100,
        c_high = Fin 102, c_low = Fin 99, c_close = Fin 101, c_volume = Fin 5000\<rparr>] \<noteq> []"
    by simp
  have h3: "''MACD Strategy'' \<noteq> ''Bollinger Bands Strategy''" by simp
  from C10_signal_mapping_fails [OF h1 h2, of
      "\<lparr>p_shortPeriod = None, p_longPeriod = None, p_period = None, p_fastPeriod = None,
         p_slowPeriod = None, p_signalPeriod = None, p_overbought = None, p_oversold = None,
         p_stdDev = None\<rparr>" "Fin 10000" "DateMs 0" 1] h1 h2 h3
  show ?thesis by auto
qed


text \<open>
  The errors \<open>applyStrategy\<close> can end with, and so \<open>runBacktest\<close>: none of them
  concerns the initial capital, which \<open>runBacktest\<close> passes on unchecked.
\<close>

lemma strategy_call_errors:
  "strategy_call strategyName closes p = Inl e \<Longrightarrow>
   e = TypeError_undefined_property \<or> e = StrategyNotSupported strategyName"
  by (auto simp: strategy_call_def split: if_splits dest: bollinger_error)

lemma applyStrategy_errors:
  assumes "applyStrategy data strategyName p = Inl e"
  shows "e = NoDataProvided \<or> e = TypeError_not_a_function \<or>
         e = TypeError_undefined_property \<or> e = StrategyNotSupported strategyName"
proof (cases "strategy_call strategyName (map c_close data) p")
  case (Inl e')
  with assms strategy_call_errors [OF Inl] show ?thesis
    by (auto simp: applyStrategy_def split: if_splits)
next
  case (Inr r)
  with assms show ?thesis by (auto simp: applyStrategy_def split: if_splits)
qed

lemma runBacktest_no_capital_check:
  "runBacktest strategyData historicalData initCap p now new_id \<noteq> Inl InvalidParameter"
proof
  assume a: "runBacktest strategyData historicalData initCap p now new_id = Inl InvalidParameter"
  then obtain strategyName where n: "strategyData = Some strategyName"
    by (cases strategyData) (simp_all add: runBacktest_def)
  from a n have "applyStrategy historicalData strategyName p = Inl InvalidParameter"
    by (auto simp: runBacktest_def Let_def split: if_splits sum.splits)
  from applyStrategy_errors [OF this] show False by simp
qed
section \<open>The bar-by-bar strategy engine\<close>

text \<open>
  The claim C1 fails on the signal-mapping \<open>applyStrategy\<close>: for two candles and the
  crossover strategy it returns no signal sequence at all.
\<close>

theorem C1_signal_mapping_counterexample:
  "applyStrategy
     [\<lparr>c_timestamp = Some 86400000, c_date = None, c_time = None, c_open = Fin 100,
       c_high = Fin 102, c_low = Fin 99, c_close = Fin 101, c_volume = Fin 5000\<rparr>,
      \<lparr>c_timestamp = Some 172800000, c_date = None, c_time = None, c_open = Fin 101,
       c_high = Fin 104, c_low = Fin 100, c_close = Fin 103, c_volume = Fin 6000\<rparr>]
     ''Moving Average Crossover''
     \<lparr>p_shortPeriod = Some 1, p_longPeriod = Some 2, p_period = None, p_fastPeriod = None,
      p_slowPeriod = None, p_signalPeriod = None, p_overbought = None, p_oversold = None,
      p_stdDev = None\<rparr>
   = Inl TypeError_not_a_function"
  by (simp add: applyStrategy_def strategy_call_def)

lemma bollinger_two_neutral:
  "2 \<le> length data \<Longrightarrow>
   \<exists>r. bollingerBandsStrategy data period stdDev = Inr r \<and>
       (length data < period \<longrightarrow> sr_signal r = ''NEUTRAL'')"
  by (auto simp: bollingerBandsStrategy_def Let_def last1_def last2_def js_nth_def neutral_def
      split: option.splits)

lemma strategy_call2_ok:
  assumes "supported strategyName" "2 \<le> length closes"
  shows "\<exists>r. strategy_call2 strategyName closes p = Inr r \<and>
             (length closes < lookback2 strategyName p \<longrightarrow> sr_signal r = ''NEUTRAL'')"
proof (cases "strategyName = ''Bollinger Bands Strategy''")
  case True
  then show ?thesis
    using bollinger_two_neutral [OF assms(2), of "or_nat (p_period p) 20"
        "or_num (p_stdDev p) (Fin 2)"]
    by (simp add: strategy_call2_def lookback2_def)
next
  case False
  then show ?thesis using assms(1)
    by (auto simp: strategy_call2_def lookback2_def supported_def movingAverageCrossover_def
        rsiStrategy_def macdStrategy_def neutral_def)
qed

lemma signal_at_ok:
  assumes "supported strategyName" "i < length ohlcData"
  shows "\<exists>s. signal_at strategyName p ohlcData i = Inr s \<and>
             (s = 1 \<or> s = 0 \<or> s = - 1) \<and>
             (i < 30 \<or> i + 1 < lookback2 strategyName p \<longrightarrow> s = 0)"
proof (cases "30 \<le> i")
  case False
  then show ?thesis by (simp add: signal_at_def)
next
  case True
  have len: "length (map b_close (take (i + 1) ohlcData)) = i + 1"
    using assms(2) by simp
  then have "2 \<le> length (map b_close (take (i + 1) ohlcData))" using True by linarith
  from strategy_call2_ok [OF assms(1) this, of p] obtain r where
    r: "strategy_call2 strategyName (map b_close (take (i + 1) ohlcData)) p = Inr r"
       "i + 1 < lookback2 strategyName p \<longrightarrow> sr_signal r = ''NEUTRAL''"
    unfolding len by blast
  show ?thesis using True r by (auto simp: signal_at_def Let_def)
qed

lemma sequence_err_all_ok:
  "(\<forall>x\<in>set xs. \<exists>v. x = Inr v) \<Longrightarrow>
   \<exists>vs. sequence_err xs = Inr vs \<and> length vs = length xs \<and>
        (\<forall>j<length xs. xs ! j = Inr (vs ! j))"
proof (induction xs)
  case Nil
  show ?case by simp
next
  case (Cons x xs)
  from Cons.prems obtain v where v: "x = Inr v" by auto
  from Cons obtain vs where vs: "sequence_err xs = Inr vs" "length vs = length xs"
    "\<forall>j<length xs. xs ! j = Inr (vs ! j)" by auto
  have "\<forall>j<length (x # xs). (x # xs) ! j = Inr ((v # vs) ! j)"
    using v vs(3) by (auto simp: nth_Cons split: nat.splits)
  with v vs show ?case by auto
qed


text \<open>
  C1 (as the code has it). For every candle sequence of length \<open>n\<close> and every supported
  strategy name, the bar-by-bar \<open>applyStrategy\<close> returns exactly \<open>n\<close> bars, bar \<open>i\<close>
  carrying the close of candle \<open>i\<close> and a signal among \<open>1\<close>, \<open>0\<close>, \<open>-1\<close>; the signal is
  \<open>0\<close> (no action) on every bar with index below \<open>30\<close> and on every bar at which the
  strategy has fewer bars than its minimum lookback.
\<close>

theorem C1_bar_by_bar_length:
  assumes "supported strategyName"
  shows "\<exists>out. applyStrategy2 strategyName data p = Inr out \<and> length out = length data \<and>
           (\<forall>i<length data.
              b_close (out ! i) = c_close (data ! i) \<and>
              (b_signal (out ! i) = 1 \<or> b_signal (out ! i) = 0 \<or> b_signal (out ! i) = - 1) \<and>
              (i < 30 \<or> i + 1 < lookback2 strategyName p \<longrightarrow> b_signal (out ! i) = 0))"
proof -
  define ohlcData where "ohlcData = map to_ohlc data"
  define xs where "xs = map (signal_at strategyName p ohlcData) [0..<length ohlcData]"
  have len: "length ohlcData = length data" by (simp add: ohlcData_def)
  have "\<exists>v. signal_at strategyName p ohlcData i = Inr v" if "i < length ohlcData" for i
    using signal_at_ok [OF assms that, of p] by blast
  then have "\<forall>x\<in>set xs. \<exists>v. x = Inr v" by (auto simp: xs_def)
  from sequence_err_all_ok [OF this] obtain vs where
    vs: "sequence_err xs = Inr vs" "length vs = length xs"
      "\<forall>j<length xs. xs ! j = Inr (vs ! j)" by blast
  have lx: "length xs = length data" by (simp add: xs_def len)
  define out where "out = map (\<lambda>(bar, index).
                      with_signal bar (if index < length vs then vs ! index else 0))
                 (zip ohlcData [0..<length ohlcData])"
  have r: "applyStrategy2 strategyName data p = Inr out"
    using vs(1) by (simp add: applyStrategy2_def Let_def ohlcData_def [symmetric]
        xs_def [symmetric] out_def)
  have lo: "length out = length data" by (simp add: out_def len)
  have P: "b_close (out ! i) = c_close (data ! i) \<and>
              (b_signal (out ! i) = 1 \<or> b_signal (out ! i) = 0 \<or> b_signal (out ! i) = - 1) \<and>
              (i < 30 \<or> i + 1 < lookback2 strategyName p \<longrightarrow> b_signal (out ! i) = 0)"
    if i: "i < length data" for i
  proof -
    have oi: "out ! i = with_signal (ohlcData ! i) (vs ! i)"
      using i by (simp add: out_def len vs(2) lx)
    have "xs ! i = signal_at strategyName p ohlcData i"
      using i by (simp add: xs_def len)
    with vs(3) i lx have sa: "signal_at strategyName p ohlcData i = Inr (vs ! i)" by simp
    from signal_at_ok [OF assms, of i ohlcData p] i len sa
    have "(vs ! i = 1 \<or> vs ! i = 0 \<or> vs ! i = - 1) \<and>
          (i < 30 \<or> i + 1 < lookback2 strategyName p \<longrightarrow> vs ! i = 0)" by auto
    moreover have "b_close (ohlcData ! i) = c_close (data ! i)"
      using i by (simp add: ohlcData_def to_ohlc_def)
    ultimately show ?thesis by (simp add: oi with_signal_def)
  qed
  from r lo P show ?thesis by blast
qed

theorem C1_bar_by_bar_length_witness:
  "supported ''RSI Strategy''
   \<and> (\<exists>out. applyStrategy2 ''RSI Strategy''
        [\<lparr>c_timestamp = None, c_date = Some 86400000, c_time = None, c_open = Fin 100,
          c_high = Fin 102, c_low = Fin 99, c_close = Fin 101, c_volume = Fin 5000\<rparr>,
         \<lparr>c_timestamp = None, c_date = Some 172800000, c_time = None, c_open = Fin 101,
          c_high = Fin 104, c_low = Fin 100, c_close = Fin 103, c_volume = Fin 6000\<rparr>]
        \<lparr>p_shortPeriod = None, p_longPeriod = None, p_period = None, p_fastPeriod = None,
         p_slowPeriod = None, p_signalPeriod = None, p_overbought = None, p_oversold = None,
         p_stdDev = None\<rparr> = Inr out
      \<and> length out = 2 \<and> b_signal (out ! 0) = 0 \<and> b_signal (out ! 1) = 0)"
proof -
  have h: "supported ''RSI Strategy''" by (simp add: supported_def)
  from C1_bar_by_bar_length [OF h, of
        "[\<lparr>c_timestamp = None, c_date = Some 86400000, c_time = None, c_open = Fin 100,
          c_high = Fin 102, c_low = Fin 99, c_close = Fin 101, c_volume = Fin 5000\<rparr>,
         \<lparr>c_timestamp = None, c_date = Some 172800000, c_time = None, c_open = Fin 101,
          c_high = Fin 104, c_low = Fin 100, c_close = Fin 103, c_volume = Fin 6000\<rparr>]"
        "\<lparr>p_shortPeriod = None, p_longPeriod = None, p_period = None, p_fastPeriod = None,
         p_slowPeriod = None, p_signalPeriod = None, p_overbought = None, p_oversold = None,
         p_stdDev = None\<rparr>"]
  obtain out where o: "applyStrategy2 ''RSI Strategy''
        [\<lparr>c_timestamp = None, c_date = Some 86400000, c_time = None, c_open = Fin 100,
          c_high = Fin 102, c_low = Fin 99, c_close = Fin 101, c_volume = Fin 5000\<rparr>,
         \<lparr>c_timestamp = None, c_date = Some 172800000, c_time = None, c_open = Fin 101,
          c_high = Fin 104, c_low = Fin 100, c_close = Fin 103, c_volume = Fin 6000\<rparr>]
        \<lparr>p_shortPeriod = None, p_longPeriod = None, p_period = None, p_fastPeriod = None,
         p_slowPeriod = None, p_signalPeriod = None, p_overbought = None, p_oversold = None,
         p_stdDev = None\<rparr> = Inr out"
     "length out = 2"
     "\<forall>i<2. i < 30 \<or> i + 1 < lookback2 ''RSI Strategy''
        \<lparr>p_shortPeriod = None, p_longPeriod = None, p_period = None, p_fastPeriod = None,
         p_slowPeriod = None, p_signalPeriod = None, p_overbought = None, p_oversold = None,
         p_stdDev = None\<rparr> \<longrightarrow> b_signal (out ! i) = 0"
    by auto
  from o(3) have "b_signal (out ! 0) = 0" "b_signal (out ! 1) = 0" by simp_all
  with h o(1,2) show ?thesis by blast
qed
section \<open>Worked examples\<close>

text \<open>
  The strategy functions evaluated on small inputs: a bullish crossover; Bollinger bands
  over a single window, where the previous band values are \<open>undefined\<close>; the
  \<open>TypeError\<close> of \<open>bollingerBandsStrategy\<close> on a single candle; and the MACD line,
  whose first entry reads \<open>slowEMA[-1]\<close> when the fast period is the shorter one.
\<close>

lemma crossover_example:
  "movingAverageCrossover [Fin 100, Fin 100, Fin 130] 1 2 =
     \<lparr>sr_signal = ''BUY'',
      sr_meta = [(''shortEMA'', MNum (Some (Fin 130))), (''longEMA'', MNum (Some (Fin 120))),
                 (''crossover'', MBool True)]\<rparr>"
  by (simp add: movingAverageCrossover_def calculateEMA_def jsum_def jsub_def last1_def last2_def
      js_nth_def Let_def)

lemma bollinger_example:
  "bollingerBandsStrategy [Fin 1, Fin 3] 2 (Fin 2) =
     Inr \<lparr>sr_signal = ''NEUTRAL'',
          sr_meta = [(''price'', MNum (Some (Fin 3))), (''upper'', MNum (Some (Fin 4))),
                     (''middle'', MNum (Some (Fin 2))), (''lower'', MNum (Some (Fin 0)))]\<rparr>"
  by (simp add: bollingerBandsStrategy_def calculateBollingerBands_def windows_def band_avg_def
      band_sd_def jsum_def jsub_def jle_def jge_def jlt_def jeq_def last1_def last2_def js_nth_def
      Let_def)

lemma bollinger_single_candle_example:
  "bollingerBandsStrategy [Fin 1] 1 (Fin 2) = Inl TypeError_undefined_property"
  by (simp add: bollingerBandsStrategy_def last1_def last2_def js_nth_def Let_def)

lemma macd_example:
  "calculateMACD [Fin 1, Fin 2, Fin 3, Fin 4] 1 2 1 =
     \<lparr>macdLine = [NaN, Fin (1 / 2), Fin (1 / 2), Fin (1 / 2)],
      signalLine = [NaN, NaN, NaN, NaN],
      histogram = [NaN, NaN, NaN, NaN]\<rparr>"
  by (simp add: calculateMACD_def calculateEMA_def jsum_def jsub_def js_nth_def Let_def)
section \<open>Cash and profit in double precision\<close>

text \<open>
  Evaluating \<open>dbl\<close> at a given number: when \<open>x\<close> has the binary exponent \<open>e\<close> and
  \<open>x / 2 ^ (e - 52)\<close> rounds to the integer \<open>n\<close>, the double nearest to \<open>x\<close> is
  \<open>n * 2 ^ (e - 52)\<close>.
\<close>

lemma dbl_eval:
  assumes "power_int 2 e \<le> \<bar>x\<bar>" "\<bar>x\<bar> < power_int 2 (e + 1)" "- 1022 \<le> e"
    "rne (x / power_int 2 (e - 52)) = n"
    "\<bar>real_of_int n * power_int 2 (e - 52)\<bar> < 2 ^ 1024"
    "r = real_of_int n * power_int 2 (e - 52)"
  shows "dbl x = Fin r"
proof -
  have pos: "0 < \<bar>x\<bar>"
    using assms(1) zero_less_power_int [of "2::real" e] by linarith
  then have x0: "x \<noteq> 0" by simp
  have "2 powr real_of_int e \<le> \<bar>x\<bar> \<and> \<bar>x\<bar> < 2 powr (real_of_int e + 1)"
    using assms(1,2) powr_real_of_int' [of "2::real" e] powr_real_of_int' [of "2::real" "e + 1"]
    by simp
  then have "\<lfloor>log 2 \<bar>x\<bar>\<rfloor> = e"
    using floor_log_eq_powr_iff [of "\<bar>x\<bar>" 2 e] pos by simp
  then have "max \<lfloor>log 2 \<bar>x\<bar>\<rfloor> (- 1022) = e" using assms(3) by simp
  then show ?thesis using x0 assms(4,5,6) by (simp add: dbl_def Let_def)
qed

text \<open>
  A \<open>BUY\<close> at the price 15.47 with a capital of 8106.28. As doubles these are
  \<open>8708835779427697 / 2 ^ 49\<close> and \<open>8912949118008033 / 2 ^ 40\<close>. The quotient, a little
  below 524, rounds to 524; the cost \<open>524 * 15.47\<close> rounds up to 8106.280000000001; the
  cash left is \<open>- 2 ^ - 40\<close>, about \<open>-9.09e-13\<close>.
\<close>

lemma overspend_quotient:
  "ddiv (Fin (8912949118008033 / 1099511627776)) (Fin (8708835779427697 / 562949953421312)) = Fin 524"
  by (simp add: ddiv_def, rule dbl_eval [where e = "9" and n = "4609152743636992"])
     (simp_all add: rne_def Let_def)

lemma overspend_cost:
  "dmul (Fin 524) (Fin (8708835779427697 / 562949953421312)) = Fin (4456474559004017 / 549755813888)"
  by (simp add: dmul_def, rule dbl_eval [where e = "12" and n = "8912949118008034"])
     (simp_all add: rne_def Let_def)

lemma overspend_cash:
  "dsub (Fin (8912949118008033 / 1099511627776)) (Fin (4456474559004017 / 549755813888)) = Fin (- (1 / 1099511627776))"
  by (simp add: dsub_def jsub_def, rule dbl_eval [where e = "- 40" and n = "- 4503599627370496"])
     (simp_all add: rne_def Let_def)

lemma overspend_equity:
  "dadd (Fin (- (1 / 1099511627776))) (Fin (4456474559004017 / 549755813888)) = Fin (8912949118008033 / 1099511627776)"
  by (simp add: dadd_def, rule dbl_eval [where e = "12" and n = "8912949118008033"])
     (simp_all add: rne_def Let_def)

text \<open>
  C4. The cash balance does not stay at or above zero in the arithmetic of the program:
  with a capital of 8106.28 a \<open>BUY\<close> at 15.47 (a strictly positive price) takes
  \<open>floor(cash / price) = 524\<close> shares, deducts more than the cash there is and leaves a
  cash balance of \<open>- 2 ^ - 40\<close>.
\<close>

theorem C4_buy_overspends_in_doubles:
  "sim_loop_dbl
     (sim_init [\<lparr>sig_date = DateMs 1, sig_type = BUY, sig_price = Fin (8708835779427697 / 562949953421312)\<rparr>]
        (Fin (8912949118008033 / 1099511627776)) (DateMs 0))
     [\<lparr>sig_date = DateMs 1, sig_type = BUY, sig_price = Fin (8708835779427697 / 562949953421312)\<rparr>] =
   \<lparr>capital = Fin (- (1 / 1099511627776)), position = Fin 524,
    entryPrice = Fin (8708835779427697 / 562949953421312),
    trades = [\<lparr>tr_date = DateMs 1, tr_type = BUY, tr_price = Fin (8708835779427697 / 562949953421312),
               tr_quantity = Fin 524, tr_profit = None\<rparr>],
    st_maxDrawdown = Fin 0, peak = Fin (8912949118008033 / 1099511627776), st_winningTrades = 0,
    st_totalTrades = 0,
    equityCurve = [\<lparr>ep_date = DateMs 1, ep_equity = Fin (8912949118008033 / 1099511627776)\<rparr>,
                   \<lparr>ep_date = DateMs 1, ep_equity = Fin (8912949118008033 / 1099511627776)\<rparr>]\<rparr>"
  by (simp add: sim_loop_dbl_def sim_init_def sim_step_dbl_def sim_buy_dbl_def jeq_def Let_def
      overspend_quotient overspend_cost overspend_cash overspend_equity)

text \<open>
  A round trip with a capital of 10000: \<open>BUY\<close> at 121.97
  (\<open>4291437863674839 / 2 ^ 45\<close>), \<open>SELL\<close> at 100.34 (\<open>3530399895393403 / 2 ^ 45\<close>).
  Each line is one operation of the source, rounded.
\<close>

lemma drift_quotient:
  "ddiv (Fin 10000) (Fin (4291437863674839 / 35184372088832)) = Fin (5769348542892843 / 70368744177664)"
  by (simp add: ddiv_def, rule dbl_eval [where e = "6" and n = "5769348542892843"])
     (simp_all add: rne_def Let_def)

lemma drift_cost:
  "dmul (Fin 81) (Fin (4291437863674839 / 35184372088832)) = Fin (1357837761553367 / 137438953472)"
  by (simp add: dmul_def, rule dbl_eval [where e = "13" and n = "5431351046213468"])
     (simp_all add: rne_def Let_def)

lemma drift_cash:
  "dsub (Fin 10000) (Fin (1357837761553367 / 137438953472)) = Fin (16551773166633 / 137438953472)"
  by (simp add: dsub_def jsub_def, rule dbl_eval [where e = "6" and n = "8474507861316096"])
     (simp_all add: rne_def Let_def)

lemma drift_equity:
  "dadd (Fin (16551773166633 / 137438953472)) (Fin (1357837761553367 / 137438953472)) = Fin 10000"
  by (simp add: dadd_def, rule dbl_eval [where e = "13" and n = "5497558138880000"])
     (simp_all add: rne_def Let_def)

lemma drift_sell_value:
  "dmul (Fin 81) (Fin (3530399895393403 / 35184372088832)) = Fin (8936324735214551 / 1099511627776)"
  by (simp add: dmul_def, rule dbl_eval [where e = "12" and n = "8936324735214551"])
     (simp_all add: rne_def Let_def)

lemma drift_trade_profit:
  "dsub (Fin (8936324735214551 / 1099511627776)) (Fin (1357837761553367 / 137438953472)) = Fin (- (1926377357212385 / 1099511627776))"
  by (simp add: dsub_def jsub_def, rule dbl_eval [where e = "10" and n = "- 7705509428849540"])
     (simp_all add: rne_def Let_def)

lemma drift_final:
  "dadd (Fin (16551773166633 / 137438953472)) (Fin (8936324735214551 / 1099511627776)) = Fin (283398091267113 / 34359738368)"
  by (simp add: dadd_def, rule dbl_eval [where e = "13" and n = "4534369460273808"])
     (simp_all add: rne_def Let_def)

lemma drift_drop:
  "dsub (Fin 10000) (Fin (283398091267113 / 34359738368)) = Fin (60199292412887 / 34359738368)"
  by (simp add: dsub_def jsub_def, rule dbl_eval [where e = "10" and n = "7705509428849536"])
     (simp_all add: rne_def Let_def)

lemma drift_drop_ratio:
  "ddiv (Fin (60199292412887 / 34359738368)) (Fin 10000) = Fin (1578088331028385 / 9007199254740992)"
  by (simp add: ddiv_def, rule dbl_eval [where e = "- 3" and n = "6312353324113540"])
     (simp_all add: rne_def Let_def)

lemma drift_drawdown:
  "dmul (Fin (1578088331028385 / 9007199254740992)) (Fin 100) = Fin (4931526034463703 / 281474976710656)"
  by (simp add: dmul_def, rule dbl_eval [where e = "4" and n = "4931526034463703"])
     (simp_all add: rne_def Let_def)

lemma drift_profit:
  "dsub (Fin (283398091267113 / 34359738368)) (Fin 10000) = Fin (- (60199292412887 / 34359738368))"
  by (simp add: dsub_def jsub_def, rule dbl_eval [where e = "10" and n = "- 7705509428849536"])
     (simp_all add: rne_def Let_def)

lemma drift_ratio:
  "ddiv (Fin (- (60199292412887 / 34359738368))) (Fin 10000) = Fin (- (1578088331028385 / 9007199254740992))"
  by (simp add: ddiv_def, rule dbl_eval [where e = "- 3" and n = "- 6312353324113540"])
     (simp_all add: rne_def Let_def)

lemma drift_percent:
  "dmul (Fin (- (1578088331028385 / 9007199254740992))) (Fin 100) = Fin (- (4931526034463703 / 281474976710656))"
  by (simp add: dmul_def, rule dbl_eval [where e = "4" and n = "- 4931526034463703"])
     (simp_all add: rne_def Let_def)

lemma drift_win_ratio:
  "ddiv (Fin 0) (Fin 1) = Fin 0"
  by (simp add: ddiv_def dbl_def)

lemma drift_win_rate:
  "dmul (Fin 0) (Fin 100) = Fin 0"
  by (simp add: dmul_def dbl_def)

lemma drift_average:
  "ddiv (Fin (- (60199292412887 / 34359738368))) (Fin 1) = Fin (- (60199292412887 / 34359738368))"
  by (simp add: ddiv_def, rule dbl_eval [where e = "10" and n = "- 7705509428849536"])
     (simp_all add: rne_def Let_def)

text \<open>
  C9. In the arithmetic of the program \<open>avgTradeProfit\<close> is not the profit of the closed
  trades divided by their number, and \<open>finalCapital - initialCapital\<close> is not the sum of
  the recorded profits: on this run with one closed trade the trade's \<open>profit\<close> is
  \<open>-1752.0299999999997\<close>, while \<open>finalCapital - initialCapital\<close> and with it
  \<open>avgTradeProfit\<close> are \<open>-1752.0299999999988\<close>. The summary divides the capital
  difference, not the sum of the trade profits.
\<close>

theorem C9_capital_difference_drifts:
  "simulateTrades_dbl
     [\<lparr>sig_date = DateMs 1, sig_type = BUY, sig_price = Fin (4291437863674839 / 35184372088832)\<rparr>,
      \<lparr>sig_date = DateMs 2, sig_type = SELL, sig_price = Fin (3530399895393403 / 35184372088832)\<rparr>] (Fin 10000) (DateMs 0) =
   \<lparr>res_trades =
      [\<lparr>tr_date = DateMs 1, tr_type = BUY, tr_price = Fin (4291437863674839 / 35184372088832),
        tr_quantity = Fin 81, tr_profit = None\<rparr>,
       \<lparr>tr_date = DateMs 2, tr_type = SELL, tr_price = Fin (3530399895393403 / 35184372088832),
        tr_quantity = Fin 81,
        tr_profit = Some (Fin (- (1926377357212385 / 1099511627776)))\<rparr>],
    res_summary =
      \<lparr>initialCapital = Fin 10000,
       finalCapital = Fin (283398091267113 / 34359738368),
       profit = Fin (- (60199292412887 / 34359738368)),
       profitPercentage = Fin (- (4931526034463703 / 281474976710656)),
       totalTrades = 1, winningTrades = 0, losingTrades = 1, winRate = Fin 0,
       maxDrawdown = Fin (4931526034463703 / 281474976710656),
       avgTradeProfit = Fin (- (60199292412887 / 34359738368))\<rparr>,
    res_equityCurve =
      [\<lparr>ep_date = DateMs 1, ep_equity = Fin 10000\<rparr>,
       \<lparr>ep_date = DateMs 1, ep_equity = Fin 10000\<rparr>,
       \<lparr>ep_date = DateMs 2, ep_equity = Fin (283398091267113 / 34359738368)\<rparr>]\<rparr>"
  by (simp add: simulateTrades_dbl_def sim_loop_dbl_def sim_init_def sim_step_dbl_def
      sim_buy_dbl_def sim_sell_dbl_def sim_close_dbl_def sim_summary_dbl_def jeq_def Let_def
      drift_quotient drift_cost drift_cash drift_equity drift_sell_value drift_trade_profit
      drift_final drift_drop drift_drop_ratio drift_drawdown drift_profit drift_ratio
      drift_percent drift_win_ratio drift_win_rate drift_average)

end
